theory Spec2Isabelle
  imports Main "HOL-Library.Word" "HOL-Library.Sublist" "HOL-Library.AList"
begin

section \<open>JavaScript strings\<close>

text \<open>
  A JavaScript string is a sequence of UTF-16 code units. \<open>s.length\<close> counts code
  units, a regular expression without the \<open>u\<close> flag works on code units, and
  \<open>for (const ch of s)\<close> iterates code points (a surrogate pair is one step).
\<close>

type_synonym char16 = "16 word"
type_synonym jsstring = "char16 list"

text \<open>An ASCII literal of the source, as code units.\<close>

definition js :: "string \<Rightarrow> jsstring" where
  "js s = map of_char s"

text \<open>
  The class \<open>\s\<close> of a regular expression, which is also what \<open>trim()\<close> removes:
  WhiteSpace and LineTerminator of ECMA-262.
\<close>

definition isSpace :: "char16 \<Rightarrow> bool" where
  "isSpace c \<longleftrightarrow>
     c = 0x9 \<or> c = 0xA \<or> c = 0xB \<or> c = 0xC \<or> c = 0xD \<or> c = 0x20 \<or> c = 0xA0 \<or>
     c = 0x1680 \<or> (0x2000 \<le> c \<and> c \<le> 0x200A) \<or> c = 0x2028 \<or> c = 0x2029 \<or>
     c = 0x202F \<or> c = 0x205F \<or> c = 0x3000 \<or> c = 0xFEFF"

definition notSpace :: "char16 \<Rightarrow> bool" where
  "notSpace c \<longleftrightarrow> \<not> isSpace c"

text \<open>The classes \<open>\d\<close>, \<open>[a-z0-9]\<close> and \<open>\w\<close>.\<close>

definition isDigit :: "char16 \<Rightarrow> bool" where
  "isDigit c \<longleftrightarrow> 0x30 \<le> c \<and> c \<le> 0x39"

definition isLowerAscii :: "char16 \<Rightarrow> bool" where
  "isLowerAscii c \<longleftrightarrow> 0x61 \<le> c \<and> c \<le> 0x7A"

definition isUpperAscii :: "char16 \<Rightarrow> bool" where
  "isUpperAscii c \<longleftrightarrow> 0x41 \<le> c \<and> c \<le> 0x5A"

definition isLowerAlnum :: "char16 \<Rightarrow> bool" where
  "isLowerAlnum c \<longleftrightarrow> isLowerAscii c \<or> isDigit c"

definition isWordChar :: "char16 \<Rightarrow> bool" where
  "isWordChar c \<longleftrightarrow> isLowerAscii c \<or> isUpperAscii c \<or> isDigit c \<or> c = 0x5F"

definition isAscii :: "char16 \<Rightarrow> bool" where
  "isAscii c \<longleftrightarrow> c < 0x80"

definition trim :: "jsstring \<Rightarrow> jsstring" where
  "trim s = rev (dropWhile isSpace (rev (dropWhile isSpace s)))"

text \<open>\<open>s.includes(p)\<close>: \<open>p\<close> occurs in \<open>s\<close> as a contiguous run of code units.\<close>

fun startsWith :: "jsstring \<Rightarrow> jsstring \<Rightarrow> bool" where
  "startsWith s [] = True"
| "startsWith [] (p # ps) = False"
| "startsWith (c # cs) (p # ps) = (c = p \<and> startsWith cs ps)"

fun includes_js :: "jsstring \<Rightarrow> jsstring \<Rightarrow> bool" where
  "includes_js [] p = (p = [])"
| "includes_js (c # cs) p = (startsWith (c # cs) p \<or> includes_js cs p)"

subsection \<open>Code points\<close>

definition isHighSurrogate :: "char16 \<Rightarrow> bool" where
  "isHighSurrogate c \<longleftrightarrow> 0xD800 \<le> c \<and> c \<le> 0xDBFF"

definition isLowSurrogate :: "char16 \<Rightarrow> bool" where
  "isLowSurrogate c \<longleftrightarrow> 0xDC00 \<le> c \<and> c \<le> 0xDFFF"

text \<open>
  The string iterator: a high surrogate followed by a low surrogate is one element of
  two code units, every other code unit is an element of its own.
\<close>

fun codePoints :: "jsstring \<Rightarrow> jsstring list" where
  "codePoints [] = []"
| "codePoints [c] = [[c]]"
| "codePoints (c # d # cs) =
     (if isHighSurrogate c \<and> isLowSurrogate d then [c, d] # codePoints cs
      else [c] # codePoints (d # cs))"

text \<open>The number of surrogate pairs, that is of characters outside the basic plane.\<close>

fun surrogatePairs :: "jsstring \<Rightarrow> nat" where
  "surrogatePairs [] = 0"
| "surrogatePairs [c] = 0"
| "surrogatePairs (c # d # cs) =
     (if isHighSurrogate c \<and> isLowSurrogate d then Suc (surrogatePairs cs)
      else surrogatePairs (d # cs))"

subsection \<open>Lower-casing\<close>

text \<open>
  \<open>String.prototype.toLowerCase\<close> applies the Unicode case conversion of the JavaScript
  runtime, whose tables are not part of the repository. Every function that lower-cases
  takes the conversion as its first argument \<open>lc\<close>. What the standard fixes for it on
  ASCII text is \<open>conformingLowerCase\<close>: a string of ASCII code units is converted letter
  by letter, and no result contains an upper-case ASCII letter. \<open>asciiLowerCase\<close> is
  the conversion restricted to ASCII letters.
\<close>

definition asciiLower :: "char16 \<Rightarrow> char16" where
  "asciiLower c = (if isUpperAscii c then c + 0x20 else c)"

definition asciiLowerCase :: "jsstring \<Rightarrow> jsstring" where
  "asciiLowerCase s = map asciiLower s"

definition conformingLowerCase :: "(jsstring \<Rightarrow> jsstring) \<Rightarrow> bool" where
  "conformingLowerCase lc \<longleftrightarrow>
     (\<forall>s. list_all isAscii s \<longrightarrow> lc s = asciiLowerCase s) \<and>
     (\<forall>s. list_all (\<lambda>c. \<not> isUpperAscii c) (lc s))"

section \<open>SHA-256 of the UTF-8 encoding\<close>

text \<open>
  \<open>crypto.createHash('sha256').update(value).digest('hex')\<close>: the string is encoded
  as UTF-8 (a surrogate that is not part of a pair becomes U+FFFD), hashed with SHA-256
  (FIPS 180-4), and the digest is written as 64 lower-case hexadecimal digits.
\<close>

type_synonym byte = "8 word"
type_synonym u32 = "32 word"

definition utf8CodePoint :: "nat \<Rightarrow> byte list" where
  "utf8CodePoint n =
     (if n < 0x80 then [of_nat n]
      else if n < 0x800 then [of_nat (0xC0 + n div 64), of_nat (0x80 + n mod 64)]
      else if n < 0x10000 then
        [of_nat (0xE0 + n div 4096), of_nat (0x80 + n div 64 mod 64), of_nat (0x80 + n mod 64)]
      else
        [of_nat (0xF0 + n div 262144), of_nat (0x80 + n div 4096 mod 64),
         of_nat (0x80 + n div 64 mod 64), of_nat (0x80 + n mod 64)])"

definition utf8Element :: "jsstring \<Rightarrow> byte list" where
  "utf8Element e =
     (case e of
        [c] \<Rightarrow> if isHighSurrogate c \<or> isLowSurrogate c then utf8CodePoint 0xFFFD
               else utf8CodePoint (unat c)
      | [c, d] \<Rightarrow> utf8CodePoint (0x10000 + (unat c - 0xD800) * 1024 + (unat d - 0xDC00))
      | _ \<Rightarrow> [])"

definition utf8 :: "jsstring \<Rightarrow> byte list" where
  "utf8 s = concat (map utf8Element (codePoints s))"

text \<open>
  The constants of FIPS 180-4 are fractional parts of roots of the first primes: the round
  constants are the first 32 bits of the fractional parts of the cube roots of the
  first 64 primes, the initial hash value those of the square roots of the first 8.
  \<open>rootFloor k b n\<close> is the integer part of the \<open>k\<close>-th root of \<open>n\<close>, found bit by
  bit below \<open>2 ^ b\<close>.
\<close>

fun rootFloorFrom :: "nat \<Rightarrow> nat \<Rightarrow> nat \<Rightarrow> nat \<Rightarrow> nat" where
  "rootFloorFrom k 0 n r = r"
| "rootFloorFrom k (Suc b) n r =
     (if (r + 2 ^ b) ^ k \<le> n then rootFloorFrom k b n (r + 2 ^ b) else rootFloorFrom k b n r)"

definition rootFloor :: "nat \<Rightarrow> nat \<Rightarrow> nat \<Rightarrow> nat" where
  "rootFloor k b n = rootFloorFrom k b n 0"

definition isPrime :: "nat \<Rightarrow> bool" where
  "isPrime n \<longleftrightarrow> 1 < n \<and> (\<forall>d \<in> set [2..<n]. \<not> d dvd n)"

definition firstPrimes :: "nat list" where
  "firstPrimes = filter isPrime [2..<312]"

definition fractionalRootBits :: "nat \<Rightarrow> nat \<Rightarrow> u32" where
  "fractionalRootBits k p = of_nat (rootFloor k 36 (p * 2 ^ (32 * k)) mod 2 ^ 32)"

definition sha256K :: "u32 list" where
  "sha256K = map (fractionalRootBits 3) firstPrimes"

definition sha256Init :: "u32 list" where
  "sha256Init = map (fractionalRootBits 2) (take 8 firstPrimes)"

definition rotr :: "nat \<Rightarrow> u32 \<Rightarrow> u32" where
  "rotr n x = word_rotr n x"

definition smallSigma0 :: "u32 \<Rightarrow> u32" where
  "smallSigma0 x = xor (xor (rotr 7 x) (rotr 18 x)) (drop_bit 3 x)"

definition smallSigma1 :: "u32 \<Rightarrow> u32" where
  "smallSigma1 x = xor (xor (rotr 17 x) (rotr 19 x)) (drop_bit 10 x)"

definition bigSigma0 :: "u32 \<Rightarrow> u32" where
  "bigSigma0 x = xor (xor (rotr 2 x) (rotr 13 x)) (rotr 22 x)"

definition bigSigma1 :: "u32 \<Rightarrow> u32" where
  "bigSigma1 x = xor (xor (rotr 6 x) (rotr 11 x)) (rotr 25 x)"

definition sha_ch :: "u32 \<Rightarrow> u32 \<Rightarrow> u32 \<Rightarrow> u32" where
  "sha_ch x y z = xor (and x y) (and (not x) z)"

definition sha_maj :: "u32 \<Rightarrow> u32 \<Rightarrow> u32 \<Rightarrow> u32" where
  "sha_maj x y z = xor (xor (and x y) (and x z)) (and y z)"

text \<open>Padding: a 1 bit, zeros up to 56 modulo 64 bytes, the bit length on 64 bits.\<close>

definition bigEndian :: "nat \<Rightarrow> nat \<Rightarrow> byte list" where
  "bigEndian k n = map (\<lambda>i. of_nat (n div 256 ^ (k - 1 - i) mod 256)) [0..<k]"

definition sha256Pad :: "byte list \<Rightarrow> byte list" where
  "sha256Pad m =
     m @ [0x80] @ replicate ((119 - length m mod 64) mod 64) 0 @ bigEndian 8 (8 * length m)"

fun wordsOfBytes :: "byte list \<Rightarrow> u32 list" where
  "wordsOfBytes (a # b # c # d # bs) =
     (push_bit 24 (ucast a) + push_bit 16 (ucast b) + push_bit 8 (ucast c) + ucast d)
     # wordsOfBytes bs"
| "wordsOfBytes bs = []"

fun schedule :: "nat \<Rightarrow> u32 list \<Rightarrow> u32 list" where
  "schedule 0 w = w"
| "schedule (Suc n) w =
     schedule n
       (w @ [smallSigma1 (w ! (length w - 2)) + w ! (length w - 7)
             + smallSigma0 (w ! (length w - 15)) + w ! (length w - 16)])"

definition sha256Round :: "u32 list \<Rightarrow> u32 \<times> u32 \<Rightarrow> u32 list" where
  "sha256Round s kw =
     (case s of
        [a, b, c, d, e, f, g, h] \<Rightarrow>
          let t1 = h + bigSigma1 e + sha_ch e f g + fst kw + snd kw;
              t2 = bigSigma0 a + sha_maj a b c
          in [t1 + t2, a, b, c, d + t1, e, f, g]
      | _ \<Rightarrow> s)"

definition sha256Block :: "u32 list \<Rightarrow> u32 list \<Rightarrow> u32 list" where
  "sha256Block h w = map2 (+) h (foldl sha256Round h (zip sha256K (schedule 48 w)))"

fun sha256Blocks :: "u32 list \<Rightarrow> u32 list \<Rightarrow> u32 list" where
  "sha256Blocks h [] = h"
| "sha256Blocks h (w # ws) =
     sha256Blocks (sha256Block h (take 16 (w # ws))) (drop 16 (w # ws))"

definition sha256 :: "byte list \<Rightarrow> u32 list" where
  "sha256 m = sha256Blocks sha256Init (wordsOfBytes (sha256Pad m))"

definition hexDigit :: "nat \<Rightarrow> char16" where
  "hexDigit n = (if n < 10 then of_nat (0x30 + n) else of_nat (0x61 + (n - 10)))"

definition hexWord :: "u32 \<Rightarrow> jsstring" where
  "hexWord w = map (\<lambda>i. hexDigit (unat w div 16 ^ (7 - i) mod 16)) [0..<8]"

definition sha256_hex :: "jsstring \<Rightarrow> jsstring" where
  "sha256_hex s = concat (map hexWord (sha256 (utf8 s)))"

section \<open>The analyzer\<close>

record properties =
  length_p :: int
  sha256_hash :: jsstring
  is_palindrome :: bool
  character_frequency_map :: "(jsstring \<times> int) list"
  unique_characters :: int
  word_count :: int

record analysis =
  id_r :: jsstring
  value_r :: jsstring
  properties :: properties
  created_at :: jsstring

text \<open>
  \<open>map[char] = (map[char] || 0) + 1\<close> on an object that starts empty. The object is
  the list of its own properties; a new key is added at the end.
\<close>

definition countChar :: "(jsstring \<times> int) list \<Rightarrow> jsstring \<Rightarrow> (jsstring \<times> int) list" where
  "countChar m char =
     AList.update char ((case map_of m char of None \<Rightarrow> 0 | Some n \<Rightarrow> n) + 1) m"

text \<open>\<open>value.match(/\S+/g)\<close>: the maximal runs of code units that are not white space.\<close>

function wordMatches :: "jsstring \<Rightarrow> jsstring list" where
  "wordMatches [] = []"
| "wordMatches (c # cs) =
     (if isSpace c then wordMatches cs
      else (c # takeWhile notSpace cs) # wordMatches (dropWhile notSpace cs))"
  by pat_completeness auto
termination
  by (relation "measure length") (auto simp: less_Suc_eq_le length_dropWhile_le)

text \<open>
  \<open>analyzeString(value)\<close>. \<open>lc\<close> is the runtime's \<open>toLowerCase\<close> and \<open>now\<close> is
  \<open>new Date().toISOString()\<close> at the time of the call.
\<close>

definition analyzeString :: "(jsstring \<Rightarrow> jsstring) \<Rightarrow> jsstring \<Rightarrow> jsstring \<Rightarrow> analysis" where
  "analyzeString lc now v =
     (let lowerCaseValue = lc v;
          sanitizedString = filter isLowerAlnum lowerCaseValue;
          reversedString = rev sanitizedString;
          frequency = foldl countChar [] (codePoints v);
          wordMatches = wordMatches v;
          props = \<lparr> length_p = int (length v),
                    sha256_hash = sha256_hex v,
                    is_palindrome = (sanitizedString = reversedString \<and> length sanitizedString > 0),
                    character_frequency_map = frequency,
                    unique_characters = int (length (map fst frequency)),
                    word_count = int (length wordMatches) \<rparr>
      in \<lparr> id_r = sha256_hash props, value_r = v, properties = props, created_at = now \<rparr>)"

text \<open>
  The palindrome rule in the words of the specification: lower-case the value, delete
  every character that is not an ASCII letter or digit, compare with the reversal.
\<close>

definition isAsciiLetterOrDigit :: "char16 \<Rightarrow> bool" where
  "isAsciiLetterOrDigit c \<longleftrightarrow> isLowerAscii c \<or> isUpperAscii c \<or> isDigit c"

definition stripNonAlphanumeric :: "jsstring \<Rightarrow> jsstring" where
  "stripNonAlphanumeric s = filter isAsciiLetterOrDigit s"

section \<open>Regular expressions\<close>

text \<open>
  The regular expressions of the source use literals, the classes \<open>\s\<close>, \<open>\d\<close>,
  \<open>\w\<close> and \<open>[a-z0-9]\<close>, greedy \<open>+\<close> and \<open>*\<close> on a class, \<open>?\<close> on a group,
  alternation, capturing groups and \<open>\b\<close>. None has a flag that changes matching.
  \<open>matchSeq\<close> is the backtracking matcher of ECMA-262 for these constructs, written with
  a continuation: an alternative or a shorter repetition is tried when everything after
  it has failed.
\<close>

datatype cls = SpaceClass | DigitClass | WordClass | LowerAlnumClass

datatype regex =
    Lit string
  | Cls cls
  | Star cls
  | Plus cls
  | WordB
  | Opt "regex list"
  | Alt "regex list list"
  | Group nat "regex list"

fun inClass :: "cls \<Rightarrow> char16 \<Rightarrow> bool" where
  "inClass SpaceClass c = isSpace c"
| "inClass DigitClass c = isDigit c"
| "inClass WordClass c = isWordChar c"
| "inClass LowerAlnumClass c = isLowerAlnum c"

type_synonym captures = "(nat \<times> jsstring) list"

text \<open>
  A position in the subject is the code unit before it (\<open>None\<close> at the start) and the
  rest of the subject. \<open>\b\<close> holds where exactly one of the two sides is a word character.
\<close>

definition wordBoundary :: "char16 option \<Rightarrow> jsstring \<Rightarrow> bool" where
  "wordBoundary p s \<longleftrightarrow>
     (case p of None \<Rightarrow> False | Some c \<Rightarrow> isWordChar c)
       \<noteq> (case s of [] \<Rightarrow> False | c # _ \<Rightarrow> isWordChar c)"

definition before :: "char16 option \<Rightarrow> jsstring \<Rightarrow> nat \<Rightarrow> char16 option" where
  "before p s n = (if n = 0 then p else Some (s ! (n - 1)))"

fun repeatClass ::
  "cls \<Rightarrow> (char16 option \<Rightarrow> jsstring \<Rightarrow> captures option) \<Rightarrow> char16 option \<Rightarrow> jsstring
     \<Rightarrow> captures option" where
  "repeatClass c k p [] = k p []"
| "repeatClass c k p (x # xs) =
     (if inClass c x then
        (case repeatClass c k (Some x) xs of Some r \<Rightarrow> Some r | None \<Rightarrow> k p (x # xs))
      else k p (x # xs))"

fun matchSeq ::
  "regex list \<Rightarrow> (char16 option \<Rightarrow> jsstring \<Rightarrow> captures \<Rightarrow> captures option)
     \<Rightarrow> char16 option \<Rightarrow> jsstring \<Rightarrow> captures \<Rightarrow> captures option"
and matchAlts ::
  "regex list list \<Rightarrow> (char16 option \<Rightarrow> jsstring \<Rightarrow> captures \<Rightarrow> captures option)
     \<Rightarrow> char16 option \<Rightarrow> jsstring \<Rightarrow> captures \<Rightarrow> captures option" where
  "matchSeq [] k p s caps = k p s caps"
| "matchSeq (Lit l # rs) k p s caps =
     (if startsWith s (js l) then matchSeq rs k (before p s (length l)) (drop (length l) s) caps
      else None)"
| "matchSeq (Cls c # rs) k p s caps =
     (case s of [] \<Rightarrow> None
      | x # xs \<Rightarrow> if inClass c x then matchSeq rs k (Some x) xs caps else None)"
| "matchSeq (Star c # rs) k p s caps =
     repeatClass c (\<lambda>p' s'. matchSeq rs k p' s' caps) p s"
| "matchSeq (Plus c # rs) k p s caps =
     (case s of [] \<Rightarrow> None
      | x # xs \<Rightarrow>
          if inClass c x then repeatClass c (\<lambda>p' s'. matchSeq rs k p' s' caps) (Some x) xs
          else None)"
| "matchSeq (WordB # rs) k p s caps =
     (if wordBoundary p s then matchSeq rs k p s caps else None)"
| "matchSeq (Opt body # rs) k p s caps =
     (case matchSeq body (\<lambda>p' s' caps'. matchSeq rs k p' s' caps') p s caps of
        Some r \<Rightarrow> Some r
      | None \<Rightarrow> matchSeq rs k p s caps)"
| "matchSeq (Alt alts # rs) k p s caps =
     matchAlts alts (\<lambda>p' s' caps'. matchSeq rs k p' s' caps') p s caps"
| "matchSeq (Group i body # rs) k p s caps =
     matchSeq body
       (\<lambda>p' s' caps'.
          matchSeq rs k p' s' (AList.update i (take (length s - length s') s) caps'))
       p s caps"
| "matchAlts [] k p s caps = None"
| "matchAlts (a # as) k p s caps =
     (case matchSeq a k p s caps of Some r \<Rightarrow> Some r | None \<Rightarrow> matchAlts as k p s caps)"

text \<open>
  \<open>regexExec re s\<close> is \<open>s.match(re)\<close> for a regular expression without the \<open>g\<close>
  flag: the captures of the leftmost match, \<open>None\<close> for \<open>null\<close>. \<open>regexTest\<close> is
  \<open>re.test(s)\<close>.
\<close>

fun searchFrom :: "regex list \<Rightarrow> char16 option \<Rightarrow> jsstring \<Rightarrow> captures option" where
  "searchFrom re p [] = matchSeq re (\<lambda>p' s' caps. Some caps) p [] []"
| "searchFrom re p (c # cs) =
     (case matchSeq re (\<lambda>p' s' caps. Some caps) p (c # cs) [] of
        Some r \<Rightarrow> Some r
      | None \<Rightarrow> searchFrom re (Some c) cs)"

definition regexExec :: "regex list \<Rightarrow> jsstring \<Rightarrow> captures option" where
  "regexExec re s = searchFrom re None s"

definition regexTest :: "regex list \<Rightarrow> jsstring \<Rightarrow> bool" where
  "regexTest re s \<longleftrightarrow> regexExec re s \<noteq> None"

text \<open>\<open>m[i]\<close> of a match: \<open>None\<close> is \<open>undefined\<close>, a group that took no part.\<close>

definition group :: "captures \<Rightarrow> nat \<Rightarrow> jsstring option" where
  "group m i = map_of m i"

text \<open>The captures once group \<open>i\<close> has taken the one code unit \<open>x\<close>, if there is one.\<close>

definition captured :: "nat \<Rightarrow> captures \<Rightarrow> char16 option \<Rightarrow> captures option" where
  "captured i caps x = map_option (\<lambda>c. AList.update i [c] caps) x"

section \<open>JavaScript values in a filter object\<close>

text \<open>
  A filter object holds booleans, numbers and strings: the query interpreter writes
  \<open>true\<close>, numbers and one-character strings, the query string of a request holds
  strings. An absent property (\<open>undefined\<close>) is \<open>None\<close>.

  A number is a double. The numbers of this program come from \<open>parseInt\<close> and from
  adding or subtracting 1, so they are the integers that a double holds exactly
  (\<open>JNum\<close>), the two infinities and \<open>NaN\<close>. Minus zero behaves as zero in every
  operation used here and is not kept apart.
\<close>

datatype jsvalue = JBool bool | JNum int | JNaN | JInfinity | JNegInfinity | JStr jsstring

text \<open>The result of a conversion to a number that is not \<open>NaN\<close>.\<close>

datatype numeric = Finite int | PlusInfinity | MinusInfinity

fun decimal :: "nat \<Rightarrow> jsstring" where
  "decimal n = (if n < 10 then [of_nat (0x30 + n)] else decimal (n div 10) @ [of_nat (0x30 + n mod 10)])"

declare decimal.simps [simp del]

subsection \<open>Rounding to a double\<close>

text \<open>
  The double nearest to a natural number, ties to the even significand of 53 bits;
  \<open>None\<close> when the result is beyond the largest double, which gives infinity.
\<close>

fun bitLength :: "nat \<Rightarrow> nat" where
  "bitLength n = (if n = 0 then 0 else Suc (bitLength (n div 2)))"

declare bitLength.simps [simp del]

definition doubleLimit :: nat where
  "doubleLimit = 2 ^ 1024"

definition roundToDouble :: "nat \<Rightarrow> nat option" where
  "roundToDouble m =
     (if bitLength m \<le> 53 then Some m
      else
        let e = bitLength m - 53;
            q = m div 2 ^ e;
            r = m mod 2 ^ e;
            q' = (if 2 * r > 2 ^ e \<or> (2 * r = 2 ^ e \<and> odd q) then q + 1 else q)
        in if q' * 2 ^ e \<ge> doubleLimit then None else Some (q' * 2 ^ e))"

definition toDouble :: "int \<Rightarrow> numeric" where
  "toDouble x =
     (case roundToDouble (nat \<bar>x\<bar>) of
        None \<Rightarrow> if x < 0 then MinusInfinity else PlusInfinity
      | Some v \<Rightarrow> Finite (if x < 0 then - int v else int v))"

text \<open>A number as a value; \<open>None\<close> is \<open>NaN\<close>.\<close>

definition number :: "numeric option \<Rightarrow> jsvalue" where
  "number r =
     (case r of None \<Rightarrow> JNaN | Some (Finite n) \<Rightarrow> JNum n
      | Some PlusInfinity \<Rightarrow> JInfinity | Some MinusInfinity \<Rightarrow> JNegInfinity)"

subsection \<open>\<open>String(v)\<close>\<close>

text \<open>
  The digits of a positive integral double \<open>x\<close> are those of the integer with the fewest
  significant digits that rounds to \<open>x\<close>, the nearest to \<open>x\<close> among these (the even
  one of two at the same distance). \<open>shortestFrom x e\<close> looks for it among the multiples
  of \<open>10 ^ e\<close> next to \<open>x\<close>, then of \<open>10 ^ (e - 1)\<close>, down to \<open>x\<close> itself. With at
  most 21 digits it is written in full, with more in exponent notation.
\<close>

fun shortestFrom :: "nat \<Rightarrow> nat \<Rightarrow> nat" where
  "shortestFrom x 0 = x"
| "shortestFrom x (Suc e) =
     (let lo = x div 10 ^ Suc e * 10 ^ Suc e;
          hi = lo + 10 ^ Suc e;
          okLo = (roundToDouble lo = Some x);
          okHi = (roundToDouble hi = Some x)
      in if okLo \<and> okHi then
           (if x - lo < hi - x then lo
            else if hi - x < x - lo then hi
            else if even (x div 10 ^ Suc e) then lo else hi)
         else if okLo then lo
         else if okHi then hi
         else shortestFrom x e)"

definition shortestDecimal :: "nat \<Rightarrow> nat" where
  "shortestDecimal x = shortestFrom x (length (decimal x) - 1)"

definition exponentNotation :: "jsstring \<Rightarrow> jsstring" where
  "exponentNotation d =
     (let s = rev (dropWhile (\<lambda>c. c = 0x30) (rev d))
      in (if length s = 1 then s else hd s # 0x2E # tl s) @ js ''e+'' @ decimal (length d - 1))"

definition numberToString :: "nat \<Rightarrow> jsstring" where
  "numberToString x =
     (let d = decimal (shortestDecimal x)
      in if length d \<le> 21 then d else exponentNotation d)"

fun toString :: "jsvalue \<Rightarrow> jsstring" where
  "toString (JBool b) = (if b then js ''true'' else js ''false'')"
| "toString (JNum n) = (if n < 0 then js ''-'' @ numberToString (nat (- n)) else numberToString (nat n))"
| "toString JNaN = js ''NaN''"
| "toString JInfinity = js ''Infinity''"
| "toString JNegInfinity = js ''-Infinity''"
| "toString (JStr s) = s"

text \<open>The truth value of \<open>v\<close> in a condition.\<close>

fun truthy :: "jsvalue \<Rightarrow> bool" where
  "truthy (JBool b) = b"
| "truthy (JNum n) = (n \<noteq> 0)"
| "truthy JNaN = False"
| "truthy JInfinity = True"
| "truthy JNegInfinity = True"
| "truthy (JStr s) = (s \<noteq> [])"

subsection \<open>\<open>parseInt\<close> and arithmetic\<close>

text \<open>
  \<open>parseInt(s, 10)\<close>: leading white space is skipped, a sign is read, then the longest
  run of decimal digits, and the integer they write is rounded to a double; \<open>None\<close> is
  \<open>NaN\<close>, the result when there is no digit. (The standard lets an engine read the
  digits after the 20th as zeros; the digits are read exactly here, as V8 does.)
\<close>

definition digitsValue :: "jsstring \<Rightarrow> nat" where
  "digitsValue ds = foldl (\<lambda>a c. 10 * a + (unat c - 0x30)) 0 ds"

definition parseInt :: "jsstring \<Rightarrow> numeric option" where
  "parseInt s =
     (let t = dropWhile isSpace s;
          negative = (t \<noteq> [] \<and> hd t = 0x2D);
          u = (if t \<noteq> [] \<and> (hd t = 0x2D \<or> hd t = 0x2B) then tl t else t);
          ds = takeWhile isDigit u
      in if ds = [] then None
         else Some (toDouble (if negative then - int (digitsValue ds) else int (digitsValue ds))))"

text \<open>
  \<open>parseInt(m[i], 10)\<close> on a group of a match; \<open>parseInt\<close> reads an undefined group
  as the text "undefined".
\<close>

definition parseIntGroup :: "jsstring option \<Rightarrow> numeric option" where
  "parseIntGroup g = parseInt (case g of None \<Rightarrow> js ''undefined'' | Some s \<Rightarrow> s)"

text \<open>\<open>x + k\<close> for a number \<open>x\<close> and an integer \<open>k\<close>: the sum, rounded to a double.\<close>

fun plus_js :: "jsvalue \<Rightarrow> int \<Rightarrow> jsvalue" where
  "plus_js (JNum n) k = number (Some (toDouble (n + k)))"
| "plus_js JInfinity k = JInfinity"
| "plus_js JNegInfinity k = JNegInfinity"
| "plus_js v k = JNaN"

text \<open>\<open>a > b\<close>, which the source applies to numbers only; it is false on \<open>NaN\<close>.\<close>

fun greater_js :: "jsvalue \<Rightarrow> jsvalue \<Rightarrow> bool" where
  "greater_js (JNum a) (JNum b) = (a > b)"
| "greater_js JInfinity (JNum b) = True"
| "greater_js JInfinity JNegInfinity = True"
| "greater_js (JNum a) JNegInfinity = True"
| "greater_js a b = False"

text \<open>
  \<open>x >= y\<close>, \<open>x <= y\<close> and \<open>x === y\<close> for a length or word count \<open>x\<close> and a
  number \<open>y\<close> that is not \<open>NaN\<close>.
\<close>

fun atLeast_js :: "int \<Rightarrow> numeric \<Rightarrow> bool" where
  "atLeast_js x (Finite n) = (x \<ge> n)"
| "atLeast_js x PlusInfinity = False"
| "atLeast_js x MinusInfinity = True"

fun atMost_js :: "int \<Rightarrow> numeric \<Rightarrow> bool" where
  "atMost_js x (Finite n) = (x \<le> n)"
| "atMost_js x PlusInfinity = True"
| "atMost_js x MinusInfinity = False"

fun equal_js :: "int \<Rightarrow> numeric \<Rightarrow> bool" where
  "equal_js x (Finite n) = (x = n)"
| "equal_js x PlusInfinity = False"
| "equal_js x MinusInfinity = False"

record filters =
  f_is_palindrome :: "jsvalue option"
  f_min_length :: "jsvalue option"
  f_max_length :: "jsvalue option"
  f_word_count :: "jsvalue option"
  f_contains_character :: "jsvalue option"

definition emptyFilters :: filters where
  "emptyFilters = \<lparr> f_is_palindrome = None, f_min_length = None, f_max_length = None,
                     f_word_count = None, f_contains_character = None \<rparr>"

section \<open>The filter engine\<close>

text \<open>\<open>applyFilters(data, filters)\<close>, the same text in both variants of the service.\<close>

definition applyFilters :: "(jsstring \<Rightarrow> jsstring) \<Rightarrow> analysis list \<Rightarrow> filters \<Rightarrow> analysis list" where
  "applyFilters lc data fs =
     (let results = data;
          results =
            (case f_is_palindrome fs of None \<Rightarrow> results
             | Some v \<Rightarrow>
                 let isPalindrome = (lc (toString v) = js ''true'')
                 in filter (\<lambda>item. is_palindrome (properties item) = isPalindrome) results);
          results =
            (case f_min_length fs of None \<Rightarrow> results
             | Some v \<Rightarrow>
                 (case parseInt (toString v) of None \<Rightarrow> results
                  | Some minLength \<Rightarrow>
                      filter (\<lambda>item. atLeast_js (length_p (properties item)) minLength) results));
          results =
            (case f_max_length fs of None \<Rightarrow> results
             | Some v \<Rightarrow>
                 (case parseInt (toString v) of None \<Rightarrow> results
                  | Some maxLength \<Rightarrow>
                      filter (\<lambda>item. atMost_js (length_p (properties item)) maxLength) results));
          results =
            (case f_word_count fs of None \<Rightarrow> results
             | Some v \<Rightarrow>
                 (case parseInt (toString v) of None \<Rightarrow> results
                  | Some wordCount \<Rightarrow>
                      filter (\<lambda>item. equal_js (word_count (properties item)) wordCount) results));
          results =
            (case f_contains_character fs of None \<Rightarrow> results
             | Some v \<Rightarrow>
                 if truthy v then
                   let char = toString v
                   in filter (\<lambda>item. includes_js (lc (value_r item)) (lc char)) results
                 else results)
      in results)"

text \<open>
  The result of \<open>applyFilters\<close> is the input filtered by one predicate: the conjunction
  of the stages that the filter object switches on.
\<close>

definition keeps :: "(jsstring \<Rightarrow> jsstring) \<Rightarrow> filters \<Rightarrow> analysis \<Rightarrow> bool" where
  "keeps lc fs item \<longleftrightarrow>
     (case f_is_palindrome fs of None \<Rightarrow> True
      | Some v \<Rightarrow> is_palindrome (properties item) = (lc (toString v) = js ''true'')) \<and>
     (case f_min_length fs of None \<Rightarrow> True
      | Some v \<Rightarrow> (case parseInt (toString v) of None \<Rightarrow> True
                   | Some n \<Rightarrow> atLeast_js (length_p (properties item)) n)) \<and>
     (case f_max_length fs of None \<Rightarrow> True
      | Some v \<Rightarrow> (case parseInt (toString v) of None \<Rightarrow> True
                   | Some n \<Rightarrow> atMost_js (length_p (properties item)) n)) \<and>
     (case f_word_count fs of None \<Rightarrow> True
      | Some v \<Rightarrow> (case parseInt (toString v) of None \<Rightarrow> True
                   | Some n \<Rightarrow> equal_js (word_count (properties item)) n)) \<and>
     (case f_contains_character fs of None \<Rightarrow> True
      | Some v \<Rightarrow> truthy v \<longrightarrow> includes_js (lc (value_r item)) (lc (toString v)))"

text \<open>
  The filter set of the specification: typed predicates, each present or absent. A
  record satisfies the set when it satisfies every predicate that is present.
\<close>

record FilterSet =
  is_palindrome_is :: "bool option"
  min_length :: "int option"
  max_length :: "int option"
  word_count_is :: "int option"
  contains_character :: "char16 option"

definition satisfies :: "(jsstring \<Rightarrow> jsstring) \<Rightarrow> FilterSet \<Rightarrow> analysis \<Rightarrow> bool" where
  "satisfies lc F item \<longleftrightarrow>
     (case is_palindrome_is F of None \<Rightarrow> True | Some b \<Rightarrow> is_palindrome (properties item) = b) \<and>
     (case min_length F of None \<Rightarrow> True | Some n \<Rightarrow> n \<le> length_p (properties item)) \<and>
     (case max_length F of None \<Rightarrow> True | Some n \<Rightarrow> n \<ge> length_p (properties item)) \<and>
     (case word_count_is F of None \<Rightarrow> True | Some n \<Rightarrow> word_count (properties item) = n) \<and>
     (case contains_character F of None \<Rightarrow> True
      | Some c \<Rightarrow> includes_js (lc (value_r item)) (lc [c]))"

text \<open>
  The two ways a filter set reaches \<open>applyFilters\<close>: as the values the query interpreter
  writes, and as the strings of a query string.
\<close>

definition asValues :: "FilterSet \<Rightarrow> filters" where
  "asValues F =
     \<lparr> f_is_palindrome = map_option JBool (is_palindrome_is F),
       f_min_length = map_option JNum (min_length F),
       f_max_length = map_option JNum (max_length F),
       f_word_count = map_option JNum (word_count_is F),
       f_contains_character = map_option (\<lambda>c. JStr [c]) (contains_character F) \<rparr>"

text \<open>The decimal numeral of an integer, as a client writes it in a query string.\<close>

definition numeral_js :: "int \<Rightarrow> jsstring" where
  "numeral_js n = (if n < 0 then js ''-'' @ decimal (nat (- n)) else decimal (nat n))"

definition asQueryStrings :: "FilterSet \<Rightarrow> filters" where
  "asQueryStrings F =
     \<lparr> f_is_palindrome = map_option (\<lambda>b. JStr (toString (JBool b))) (is_palindrome_is F),
       f_min_length = map_option (\<lambda>n. JStr (numeral_js n)) (min_length F),
       f_max_length = map_option (\<lambda>n. JStr (numeral_js n)) (max_length F),
       f_word_count = map_option (\<lambda>n. JStr (numeral_js n)) (word_count_is F),
       f_contains_character = map_option (\<lambda>c. JStr [c]) (contains_character F) \<rparr>"

text \<open>
  A filter set whose numbers are safe integers, of magnitude below \<open>2 ^ 53\<close>.
\<close>

definition safeInteger :: "int option \<Rightarrow> bool" where
  "safeInteger x \<longleftrightarrow> (case x of None \<Rightarrow> True | Some n \<Rightarrow> \<bar>n\<bar> < 2 ^ 53)"

definition safeFilterSet :: "FilterSet \<Rightarrow> bool" where
  "safeFilterSet F \<longleftrightarrow>
     safeInteger (min_length F) \<and> safeInteger (max_length F) \<and> safeInteger (word_count_is F)"

section \<open>The query interpreter\<close>

text \<open>
  The service exists in two variants in the source. The first keys the store by the
  SHA-256 hash and has the shorter interpreter; the second keys the store by the trimmed
  value and has the interpreter with more phrases. The definitions of the second carry
  the plain names, those of the first the suffix \<open>_v1\<close>.
\<close>

datatype parse_error = ConflictingFilters

subsection \<open>First variant\<close>

text \<open>
  \<open>/contains the letter (\w)|contains character (\w)|has the letter (\w)|with character (\w)/\<close>
  and \<open>/(longer|shorter|greater|less) than (\d+)/\<close>.
\<close>

definition reContains_v1 :: "regex list" where
  "reContains_v1 =
     [Alt [[Lit ''contains the letter '', Group 1 [Cls WordClass]],
           [Lit ''contains character '', Group 2 [Cls WordClass]],
           [Lit ''has the letter '', Group 3 [Cls WordClass]],
           [Lit ''with character '', Group 4 [Cls WordClass]]]]"

definition reLength_v1 :: "regex list" where
  "reLength_v1 =
     [Group 1 [Alt [[Lit ''longer''], [Lit ''shorter''], [Lit ''greater''], [Lit ''less'']]],
      Lit '' than '', Group 2 [Plus DigitClass]]"

definition extractFilters_v1 :: "jsstring \<Rightarrow> filters" where
  "extractFilters_v1 q =
     (let filters = emptyFilters;
          filters =
            (if includes_js q (js ''palindrome'') \<or> includes_js q (js ''palindromic'')
             then filters\<lparr>f_is_palindrome := Some (JBool True)\<rparr> else filters);
          filters =
            (if includes_js q (js ''single word'')
             then filters\<lparr>f_word_count := Some (JNum 1)\<rparr> else filters);
          filters =
            (case regexExec reContains_v1 q of None \<Rightarrow> filters
             | Some containsMatch \<Rightarrow>
                 (case group containsMatch 1 of None \<Rightarrow> filters
                  | Some c \<Rightarrow>
                      if c \<noteq> [] then filters\<lparr>f_contains_character := Some (JStr c)\<rparr>
                      else filters));
          filters =
            (case regexExec reLength_v1 q of None \<Rightarrow> filters
             | Some lengthMatch \<Rightarrow>
                 let type = group lengthMatch 1;
                     number = number (parseIntGroup (group lengthMatch 2))
                 in if type \<in> {Some (js ''longer''), Some (js ''greater'')}
                    then filters\<lparr>f_min_length := Some (plus_js number 1)\<rparr>
                    else if type \<in> {Some (js ''shorter''), Some (js ''less'')}
                    then filters\<lparr>f_max_length := Some (plus_js number (- 1))\<rparr>
                    else filters)
      in filters)"

definition conflicting :: "filters \<Rightarrow> bool" where
  "conflicting filters \<longleftrightarrow>
     (case (f_min_length filters, f_max_length filters) of
        (Some a, Some b) \<Rightarrow> greater_js a b
      | _ \<Rightarrow> False)"

definition parseNaturalLanguage_v1 :: "(jsstring \<Rightarrow> jsstring) \<Rightarrow> jsstring \<Rightarrow> parse_error + filters" where
  "parseNaturalLanguage_v1 lc query =
     (let q = lc query;
          filters = extractFilters_v1 q
      in if conflicting filters then Inl ConflictingFilters else Inr filters)"

subsection \<open>Second variant\<close>

text \<open>
  \<open>/\bpalindrome|palindromic\b/\<close>, \<open>/\b(single|one)\s+word\b/\<close>,
  \<open>/(?:contains|containing|has|with)\s+(?:the\s+)?(?:letter|character)\s*([a-z0-9])/\<close>,
  \<open>/\bfirst\s+vowel\b/\<close>, \<open>/\b(longer|greater)\s+than\s+(\d+)\b/\<close>,
  \<open>/\b(shorter|less)\s+than\s+(\d+)\b/\<close> and
  \<open>/\b(?:exactly|of)\s+(\d+)\s+characters?\b/\<close>.
\<close>

definition rePalindrome :: "regex list" where
  "rePalindrome = [Alt [[WordB, Lit ''palindrome''], [Lit ''palindromic'', WordB]]]"

definition reSingleWord :: "regex list" where
  "reSingleWord =
     [WordB, Group 1 [Alt [[Lit ''single''], [Lit ''one'']]], Plus SpaceClass, Lit ''word'', WordB]"

definition reContains :: "regex list" where
  "reContains =
     [Alt [[Lit ''contains''], [Lit ''containing''], [Lit ''has''], [Lit ''with'']],
      Plus SpaceClass,
      Opt [Lit ''the'', Plus SpaceClass],
      Alt [[Lit ''letter''], [Lit ''character'']],
      Star SpaceClass,
      Group 1 [Cls LowerAlnumClass]]"

definition reFirstVowel :: "regex list" where
  "reFirstVowel = [WordB, Lit ''first'', Plus SpaceClass, Lit ''vowel'', WordB]"

definition reLonger :: "regex list" where
  "reLonger =
     [WordB, Group 1 [Alt [[Lit ''longer''], [Lit ''greater'']]], Plus SpaceClass, Lit ''than'',
      Plus SpaceClass, Group 2 [Plus DigitClass], WordB]"

definition reShorter :: "regex list" where
  "reShorter =
     [WordB, Group 1 [Alt [[Lit ''shorter''], [Lit ''less'']]], Plus SpaceClass, Lit ''than'',
      Plus SpaceClass, Group 2 [Plus DigitClass], WordB]"

definition reExactly :: "regex list" where
  "reExactly =
     [WordB, Alt [[Lit ''exactly''], [Lit ''of'']], Plus SpaceClass, Group 1 [Plus DigitClass],
      Plus SpaceClass, Lit ''character'', Opt [Lit ''s''], WordB]"

definition extractFilters :: "jsstring \<Rightarrow> filters" where
  "extractFilters q =
     (let filters = emptyFilters;
          filters =
            (if regexTest rePalindrome q
             then filters\<lparr>f_is_palindrome := Some (JBool True)\<rparr> else filters);
          filters =
            (if regexTest reSingleWord q
             then filters\<lparr>f_word_count := Some (JNum 1)\<rparr> else filters);
          filters =
            (case regexExec reContains q of None \<Rightarrow> filters
             | Some containsChar \<Rightarrow>
                 filters\<lparr>f_contains_character := map_option JStr (group containsChar 1)\<rparr>);
          filters =
            (if regexTest reFirstVowel q
             then filters\<lparr>f_contains_character := Some (JStr (js ''a''))\<rparr> else filters);
          filters =
            (case regexExec reLonger q of None \<Rightarrow> filters
             | Some longer \<Rightarrow>
                 filters\<lparr>f_min_length :=
                   Some (plus_js (number (parseIntGroup (group longer 2))) 1)\<rparr>);
          filters =
            (case regexExec reShorter q of None \<Rightarrow> filters
             | Some shorter \<Rightarrow>
                 filters\<lparr>f_max_length :=
                   Some (plus_js (number (parseIntGroup (group shorter 2))) (- 1))\<rparr>);
          filters =
            (case regexExec reExactly q of None \<Rightarrow> filters
             | Some exactly \<Rightarrow>
                 let n = number (parseIntGroup (group exactly 1))
                 in filters\<lparr>f_min_length := Some n, f_max_length := Some n\<rparr>)
      in filters)"

definition parseNaturalLanguage :: "(jsstring \<Rightarrow> jsstring) \<Rightarrow> jsstring \<Rightarrow> parse_error + filters" where
  "parseNaturalLanguage lc queryRaw =
     (let q = trim (lc queryRaw)
      in if q = [] then Inr emptyFilters
         else let filters = extractFilters q
              in if conflicting filters then Inl ConflictingFilters else Inr filters)"

section \<open>The record store\<close>

text \<open>
  \<open>const stringStore = {}\<close> is a plain object: its own properties are the stored
  records, in the order they were added, and a read \<open>stringStore[key]\<close> also finds the
  properties that every object inherits from \<open>Object.prototype\<close>, which are functions
  (and, for \<open>__proto__\<close>, an object), hence true in a condition.
\<close>

type_synonym store = "(jsstring \<times> analysis) list"

definition objectPrototypeKeys :: "jsstring list" where
  "objectPrototypeKeys =
     map js [''constructor'', ''hasOwnProperty'', ''isPrototypeOf'', ''propertyIsEnumerable'',
             ''toLocaleString'', ''toString'', ''valueOf'', ''__proto__'', ''__defineGetter__'',
             ''__defineSetter__'', ''__lookupGetter__'', ''__lookupSetter__'']"

datatype property = Own analysis | Inherited | Undefined

definition getProperty :: "store \<Rightarrow> jsstring \<Rightarrow> property" where
  "getProperty stringStore key =
     (case map_of stringStore key of
        Some r \<Rightarrow> Own r
      | None \<Rightarrow> if key \<in> set objectPrototypeKeys then Inherited else Undefined)"

text \<open>
  \<open>stringStore[key] = r\<close> and \<open>delete stringStore[key]\<close> act on the own properties.
  (The write is reached only for a key whose read is \<open>undefined\<close>, so never for
  \<open>__proto__\<close>.)
\<close>

definition setProperty :: "store \<Rightarrow> jsstring \<Rightarrow> analysis \<Rightarrow> store" where
  "setProperty stringStore key r = AList.update key r stringStore"

definition deleteProperty :: "store \<Rightarrow> jsstring \<Rightarrow> store" where
  "deleteProperty stringStore key = AList.delete key stringStore"

text \<open>
  The \<open>value\<close> field of the request body, and the outcome of a request: the record of a
  201 or 200 response, the empty 204 response, or the error of the specification
  (400 \<open>MissingField\<close>, 422 \<open>WrongType\<close> and \<open>EmptyValue\<close>, 409 \<open>Duplicate\<close>,
  404 \<open>NotFound\<close>).
\<close>

datatype body_value = Missing | NotAString | StringValue jsstring

datatype error = MissingField | WrongType | EmptyValue | Duplicate | NotFound

datatype response = Created analysis | NoContent | Failed error

datatype variant = HashKeyed | ValueKeyed

text \<open>\<open>app.post('/strings')\<close> of the first variant: the key is the hash.\<close>

definition post_strings_v1 ::
  "(jsstring \<Rightarrow> jsstring) \<Rightarrow> jsstring \<Rightarrow> store \<Rightarrow> body_value \<Rightarrow> response \<times> store" where
  "post_strings_v1 lc now stringStore v =
     (case v of
        Missing \<Rightarrow> (Failed MissingField, stringStore)
      | NotAString \<Rightarrow> (Failed WrongType, stringStore)
      | StringValue s \<Rightarrow>
          let trimmedValue = trim s
          in if length trimmedValue = 0 then (Failed EmptyValue, stringStore)
             else
               let analysisResult = analyzeString lc now trimmedValue
               in if getProperty stringStore (id_r analysisResult) \<noteq> Undefined
                  then (Failed Duplicate, stringStore)
                  else (Created analysisResult,
                        setProperty stringStore (id_r analysisResult) analysisResult))"

text \<open>\<open>app.post("/strings")\<close> of the second variant: the key is the trimmed value.\<close>

definition post_strings ::
  "(jsstring \<Rightarrow> jsstring) \<Rightarrow> jsstring \<Rightarrow> store \<Rightarrow> body_value \<Rightarrow> response \<times> store" where
  "post_strings lc now stringStore v =
     (case v of
        Missing \<Rightarrow> (Failed MissingField, stringStore)
      | NotAString \<Rightarrow> (Failed WrongType, stringStore)
      | StringValue s \<Rightarrow>
          let trimmedValue = trim s
          in if length trimmedValue = 0 then (Failed EmptyValue, stringStore)
             else
               let analysisResult = analyzeString lc now trimmedValue
               in if getProperty stringStore trimmedValue \<noteq> Undefined
                  then (Failed Duplicate, stringStore)
                  else (Created analysisResult,
                        setProperty stringStore trimmedValue analysisResult))"

text \<open>
  \<open>app.delete('/strings/:hash')\<close> and \<open>app.delete("/strings/:value")\<close>, the same
  text up to the name of the path parameter.
\<close>

definition delete_strings :: "store \<Rightarrow> jsstring \<Rightarrow> response \<times> store" where
  "delete_strings stringStore key =
     (if getProperty stringStore key = Undefined then (Failed NotFound, stringStore)
      else (NoContent, deleteProperty stringStore key))"

text \<open>
  The requests that change the store, and the store after a sequence of them, starting
  from the empty store of a new process.
\<close>

datatype request = Post jsstring body_value | Delete jsstring

fun handle :: "variant \<Rightarrow> (jsstring \<Rightarrow> jsstring) \<Rightarrow> store \<Rightarrow> request \<Rightarrow> response \<times> store" where
  "handle HashKeyed lc stringStore (Post now v) = post_strings_v1 lc now stringStore v"
| "handle ValueKeyed lc stringStore (Post now v) = post_strings lc now stringStore v"
| "handle variant lc stringStore (Delete key) = delete_strings stringStore key"

definition storeAfter :: "variant \<Rightarrow> (jsstring \<Rightarrow> jsstring) \<Rightarrow> request list \<Rightarrow> store" where
  "storeAfter variant lc requests = foldl (\<lambda>st r. snd (handle variant lc st r)) [] requests"

text \<open>The key under which a variant stores the record of a trimmed value.\<close>

fun storeKey :: "variant \<Rightarrow> jsstring \<Rightarrow> jsstring" where
  "storeKey HashKeyed trimmedValue = sha256_hex trimmedValue"
| "storeKey ValueKeyed trimmedValue = trimmedValue"

text \<open>
  What holds of a stored record: its value is trimmed and not empty, its length and its
  word count are at least 1.
\<close>

definition wellFormed :: "analysis \<Rightarrow> bool" where
  "wellFormed r \<longleftrightarrow> value_r r = trim (value_r r) \<and> value_r r \<noteq> [] \<and>
     1 \<le> length_p (properties r) \<and> 1 \<le> word_count (properties r)"

section \<open>Phrases of a query, in the words of the specification\<close>

text \<open>
  The phrases that the interpreter looks for, written as plain scans of the text: they
  say what a phrase is without the regular-expression matcher, and are compared with
  the regular expressions of the source below.
\<close>

text \<open>
  \<open>stripAny ws s\<close>: the text after the first of the words \<open>ws\<close> that \<open>s\<close> starts with.
  \<open>skipSpaces1 s\<close>: the text after the white space that \<open>s\<close> starts with, of which
  there must be some.
\<close>

fun stripAny :: "string list \<Rightarrow> jsstring \<Rightarrow> jsstring option" where
  "stripAny [] s = None"
| "stripAny (w # ws) s = (if startsWith s (js w) then Some (drop (length w) s) else stripAny ws s)"

definition skipSpaces1 :: "jsstring \<Rightarrow> jsstring option" where
  "skipSpaces1 s =
     (case s of [] \<Rightarrow> None | c # cs \<Rightarrow> if isSpace c then Some (dropWhile isSpace cs) else None)"

definition skipThe :: "jsstring \<Rightarrow> jsstring" where
  "skipThe s =
     (case stripAny [''the''] s of None \<Rightarrow> s
      | Some t \<Rightarrow> (case skipSpaces1 t of None \<Rightarrow> s | Some t' \<Rightarrow> t'))"

definition alnumHere :: "jsstring \<Rightarrow> char16 option" where
  "alnumHere s = (case s of [] \<Rightarrow> None | x # _ \<Rightarrow> if isLowerAlnum x then Some x else None)"

text \<open>
  A phrase "contains/containing/has/with [the] letter/character X" that starts at the
  head of \<open>s\<close>: one of the four words, white space, optionally "the" and white space,
  "letter" or "character", optional white space, and a lower-case ASCII letter or a
  digit X. \<open>firstContainsPhrase\<close> is the X of the leftmost such phrase of a text.
\<close>

definition nounThenX :: "jsstring \<Rightarrow> char16 option" where
  "nounThenX s =
     (case stripAny [''letter'', ''character''] s of None \<Rightarrow> None
      | Some r \<Rightarrow> alnumHere (dropWhile isSpace r))"

definition afterVerb :: "jsstring \<Rightarrow> char16 option" where
  "afterVerb s = (case skipSpaces1 s of None \<Rightarrow> None | Some r \<Rightarrow> nounThenX (skipThe r))"

definition containsPhraseAt :: "jsstring \<Rightarrow> char16 option" where
  "containsPhraseAt s =
     (case stripAny [''contains'', ''containing'', ''has'', ''with''] s of None \<Rightarrow> None
      | Some r \<Rightarrow> afterVerb r)"

fun firstContainsPhrase :: "jsstring \<Rightarrow> char16 option" where
  "firstContainsPhrase [] = None"
| "firstContainsPhrase (c # cs) =
     (case containsPhraseAt (c # cs) of Some x \<Rightarrow> Some x | None \<Rightarrow> firstContainsPhrase cs)"

text \<open>
  The four phrases of the first variant, each with a single space between its words and
  followed by a word character X: the number of the phrase and X, for the first phrase
  that is at the head of \<open>s\<close>; \<open>firstPhrase_v1\<close> is that of the leftmost place of a
  text where one of them is.
\<close>

definition phrases_v1 :: "(nat \<times> string) list" where
  "phrases_v1 =
     [(1, ''contains the letter ''), (2, ''contains character ''),
      (3, ''has the letter ''), (4, ''with character '')]"

fun phraseAmong :: "(nat \<times> string) list \<Rightarrow> jsstring \<Rightarrow> (nat \<times> char16) option" where
  "phraseAmong [] s = None"
| "phraseAmong ((i, w) # ws) s =
     (if startsWith s (js w) then
        (case drop (length w) s of
           [] \<Rightarrow> phraseAmong ws s
         | x # _ \<Rightarrow> if isWordChar x then Some (i, x) else phraseAmong ws s)
      else phraseAmong ws s)"

fun firstPhrase_v1 :: "jsstring \<Rightarrow> (nat \<times> char16) option" where
  "firstPhrase_v1 [] = None"
| "firstPhrase_v1 (c # cs) =
     (case phraseAmong phrases_v1 (c # cs) of Some r \<Rightarrow> Some r | None \<Rightarrow> firstPhrase_v1 cs)"

text \<open>
  A phrase as whole words: \<open>ph\<close> occurs in the text with no word character right before
  it and none right after it.
\<close>

definition wordBefore :: "char16 option \<Rightarrow> bool" where
  "wordBefore p \<longleftrightarrow> (case p of None \<Rightarrow> False | Some c \<Rightarrow> isWordChar c)"

definition wordAfter :: "jsstring \<Rightarrow> bool" where
  "wordAfter s \<longleftrightarrow> (case s of [] \<Rightarrow> False | c # _ \<Rightarrow> isWordChar c)"

fun wholeWordsFrom :: "jsstring \<Rightarrow> char16 option \<Rightarrow> jsstring \<Rightarrow> bool" where
  "wholeWordsFrom ph p [] = False"
| "wholeWordsFrom ph p (c # cs) =
     ((\<not> wordBefore p \<and> startsWith (c # cs) ph \<and> \<not> wordAfter (drop (length ph) (c # cs)))
      \<or> wholeWordsFrom ph (Some c) cs)"

definition containsPhrase :: "string \<Rightarrow> jsstring \<Rightarrow> bool" where
  "containsPhrase ph s = wholeWordsFrom (js ph) None s"

section \<open>Properties of the analyzer\<close>

lemmas charClasses =
  isLowerAlnum_def isLowerAscii_def isUpperAscii_def isDigit_def isAsciiLetterOrDigit_def
  isWordChar_def isSpace_def notSpace_def isHighSurrogate_def isLowSurrogate_def asciiLower_def

lemma length_codePoints: "length (codePoints s) + surrogatePairs s = length s"
  by (induction s rule: codePoints.induct) auto

lemma countChar_keys:
  "map fst (countChar m c) = (if c \<in> set (map fst m) then map fst m else map fst m @ [c])"
  by (simp add: countChar_def update_keys)

lemma countChar_keyset: "set (map fst (countChar m c)) = insert c (set (map fst m))"
  by (auto simp: countChar_keys)

lemma countChar_distinct: "distinct (map fst m) \<Longrightarrow> distinct (map fst (countChar m c))"
  by (simp add: countChar_def distinct_update)

lemma sum_update:
  "sum_list (map snd (AList.update k v m)) =
     (case map_of m k of None \<Rightarrow> sum_list (map snd m) + v
      | Some w \<Rightarrow> sum_list (map snd m) - w + (v::int))"
  by (induction m) (auto split: option.splits)

lemma countChar_sum: "sum_list (map snd (countChar m c)) = sum_list (map snd m) + 1"
  by (simp add: countChar_def sum_update split: option.splits)

lemma foldl_countChar_sum:
  "sum_list (map snd (foldl countChar m xs)) = sum_list (map snd m) + int (length xs)"
  by (induction xs arbitrary: m) (simp_all add: countChar_sum)

lemma foldl_countChar_distinct:
  "distinct (map fst m) \<Longrightarrow> distinct (map fst (foldl countChar m xs))"
  by (induction xs arbitrary: m) (simp_all add: countChar_distinct)

lemma foldl_countChar_keys:
  "set (map fst (foldl countChar m xs)) = set (map fst m) \<union> set xs"
  by (induction xs arbitrary: m) (simp_all add: countChar_keyset del: set_map)

lemma asciiLower_not_upper: "\<not> isUpperAscii (asciiLower c)"
  unfolding asciiLower_def isUpperAscii_def by (auto simp: word_le_nat_alt unat_word_ariths)

lemma asciiLowerCase_conforming: "conformingLowerCase asciiLowerCase"
  by (simp add: conformingLowerCase_def asciiLowerCase_def list_all_iff asciiLower_not_upper)

lemma strip_lower:
  assumes "list_all (\<lambda>c. \<not> isUpperAscii c) s"
  shows "filter isLowerAlnum s = stripNonAlphanumeric s"
  unfolding stripNonAlphanumeric_def using assms
  by (intro filter_cong) (auto simp: list_all_iff isLowerAlnum_def isAsciiLetterOrDigit_def)

text \<open>
  C1 (as amended). \<open>properties.length\<close> of the analysis of the trimmed input is
  \<open>value.length\<close>, the number of UTF-16 code units of the trimmed string: the number of
  its code points plus the number of its surrogate pairs. It is the code-point count
  exactly when the trimmed string has no character outside the basic plane.
\<close>

theorem length_is_code_unit_count:
  "length_p (properties (analyzeString lc now (trim s))) = int (length (trim s)) \<and>
   length_p (properties (analyzeString lc now (trim s)))
     = int (length (codePoints (trim s))) + int (surrogatePairs (trim s))"
  using length_codePoints [of "trim s"] by (simp add: analyzeString_def Let_def)

text \<open>
  C1 as stated fails on a string that holds one character outside the basic plane
  (U+1F600, the surrogate pair D83D DE00): its length is 2 and it has one code point.
\<close>

theorem length_is_not_code_point_count:
  "length_p (properties (analyzeString asciiLowerCase (js ''2025-10-20T10:00:00.000Z'')
       (trim [0xD83D, 0xDE00])))
     \<noteq> int (length (codePoints (trim [0xD83D, 0xDE00])))"
  by (simp add: analyzeString_def Let_def trim_def isSpace_def isHighSurrogate_def
      isLowSurrogate_def)

text \<open>
  C4. \<open>is_palindrome\<close> is true if and only if the lower-cased value, with every
  character that is not an ASCII letter or digit deleted, is non-empty and equal to its
  own reversal. A value that becomes empty by the deletion is not a palindrome.
\<close>

theorem palindrome_rule:
  assumes "conformingLowerCase lc"
  shows "is_palindrome (properties (analyzeString lc now v)) \<longleftrightarrow>
           stripNonAlphanumeric (lc v) \<noteq> [] \<and>
           stripNonAlphanumeric (lc v) = rev (stripNonAlphanumeric (lc v))"
proof -
  from assms have "list_all (\<lambda>c. \<not> isUpperAscii c) (lc v)"
    by (simp add: conformingLowerCase_def)
  then have "filter isLowerAlnum (lc v) = stripNonAlphanumeric (lc v)"
    by (rule strip_lower)
  then show ?thesis
    by (auto simp: analyzeString_def Let_def)
qed

text \<open>
  The rule at "A man a plan a canal Panama", a palindrome, and at "!!!", which is empty
  after the deletion.
\<close>

theorem palindrome_rule_witness:
  "conformingLowerCase asciiLowerCase \<and>
   is_palindrome (properties (analyzeString asciiLowerCase (js ''2025-10-20T10:00:00.000Z'')
       (js ''A man a plan a canal Panama''))) \<and>
   \<not> is_palindrome (properties (analyzeString asciiLowerCase (js ''2025-10-20T10:00:00.000Z'')
       (js ''!!!'')))"
  using palindrome_rule [OF asciiLowerCase_conforming, of "js ''2025-10-20T10:00:00.000Z''"
          "js ''A man a plan a canal Panama''"]
        palindrome_rule [OF asciiLowerCase_conforming, of "js ''2025-10-20T10:00:00.000Z''"
          "js ''!!!''"]
  by (simp add: asciiLowerCase_conforming stripNonAlphanumeric_def asciiLowerCase_def js_def
      charClasses)

text \<open>
  C5 (as amended). The occurrence counts of \<open>character_frequency_map\<close> add up to the
  number of code points of the value, which is \<open>length\<close> minus the number of surrogate
  pairs; the keys are the distinct code points of the value, and \<open>unique_characters\<close>
  is their number.
\<close>

theorem frequency_consistency:
  "sum_list (map snd (character_frequency_map (properties (analyzeString lc now v))))
     = int (length (codePoints v)) \<and>
   sum_list (map snd (character_frequency_map (properties (analyzeString lc now v))))
     + int (surrogatePairs v) = length_p (properties (analyzeString lc now v)) \<and>
   distinct (map fst (character_frequency_map (properties (analyzeString lc now v)))) \<and>
   set (map fst (character_frequency_map (properties (analyzeString lc now v))))
     = set (codePoints v) \<and>
   unique_characters (properties (analyzeString lc now v))
     = int (card (set (map fst (character_frequency_map (properties (analyzeString lc now v))))))"
proof -
  let ?m = "foldl countChar [] (codePoints v)"
  have d: "distinct (map fst ?m)"
    by (rule foldl_countChar_distinct) simp
  have s: "sum_list (map snd ?m) = int (length (codePoints v))"
    by (simp add: foldl_countChar_sum)
  have k: "set (map fst ?m) = set (codePoints v)"
    by (simp add: foldl_countChar_keys del: set_map)
  have c: "card (set (map fst ?m)) = length (map fst ?m)"
    by (rule distinct_card [OF d])
  show ?thesis
    using d s k c length_codePoints [of v] by (simp add: analyzeString_def Let_def del: set_map)
qed

text \<open>
  C5 as stated fails on the same string: the one count is 1 and \<open>length\<close> is 2.
\<close>

theorem frequency_sum_is_not_length:
  "sum_list (map snd (character_frequency_map (properties
       (analyzeString asciiLowerCase (js ''2025-10-20T10:00:00.000Z'') [0xD83D, 0xDE00]))))
     \<noteq> length_p (properties
       (analyzeString asciiLowerCase (js ''2025-10-20T10:00:00.000Z'') [0xD83D, 0xDE00]))"
  by (simp add: analyzeString_def Let_def countChar_def isHighSurrogate_def isLowSurrogate_def)

section \<open>Properties of the record store\<close>


lemma dropWhile_hd_id: "s \<noteq> [] \<Longrightarrow> \<not> P (hd s) \<Longrightarrow> dropWhile P s = s"
  by (cases s) auto

lemma last_dropWhile: "dropWhile P s \<noteq> [] \<Longrightarrow> last (dropWhile P s) = last s"
  by (induction s) (auto split: if_splits)

lemma trim_cases:
  "trim s = [] \<or> (\<not> isSpace (hd (trim s)) \<and> \<not> isSpace (last (trim s)))"
proof (cases "dropWhile isSpace s = []")
  case True
  have "trim s = []" unfolding trim_def True by simp
  then show ?thesis by simp
next
  case False
  let ?t = "dropWhile isSpace s"
  let ?u = "dropWhile isSpace (rev ?t)"
  from False have h: "\<not> isSpace (hd ?t)" by (rule hd_dropWhile)
  with False have l: "\<not> isSpace (last (rev ?t))" by (simp add: last_rev)
  have "rev ?t \<noteq> []" using False by simp
  with l have une: "?u \<noteq> []"
    by (metis dropWhile_eq_Nil_conv last_in_set)
  then have hu: "\<not> isSpace (hd ?u)" by (rule hd_dropWhile)
  have "last ?u = last (rev ?t)" using une by (rule last_dropWhile)
  then have "hd (rev ?u) = hd ?t" using une False by (simp add: hd_rev last_rev)
  with h hu une show ?thesis by (simp add: trim_def last_rev)
qed

lemma trim_idem: "trim (trim s) = trim s"
proof (cases "trim s = []")
  case True
  have "trim [] = []" by (simp add: trim_def)
  with True show ?thesis by simp
next
  case False
  with trim_cases [of s] have h: "\<not> isSpace (hd (trim s))" and l: "\<not> isSpace (last (trim s))"
    by auto
  have 1: "dropWhile isSpace (trim s) = trim s"
    using False h by (rule dropWhile_hd_id)
  have "rev (trim s) \<noteq> []" using False by simp
  moreover have "\<not> isSpace (hd (rev (trim s)))" using False l by (simp add: hd_rev)
  ultimately have 2: "dropWhile isSpace (rev (trim s)) = rev (trim s)"
    by (rule dropWhile_hd_id)
  show ?thesis
    unfolding trim_def [of "trim s"] by (simp add: 1 2)
qed

lemma wordMatches_nonempty: "\<exists>c \<in> set s. \<not> isSpace c \<Longrightarrow> wordMatches s \<noteq> []"
  by (induction s rule: wordMatches.induct) auto

lemma trimmed_has_word: "trim s \<noteq> [] \<Longrightarrow> wordMatches (trim s) \<noteq> []"
proof -
  assume ne: "trim s \<noteq> []"
  with trim_cases [of s] have "\<not> isSpace (hd (trim s))" by auto
  with ne have "\<exists>c \<in> set (trim s). \<not> isSpace c" using hd_in_set by blast 
  then show ?thesis by (rule wordMatches_nonempty)
qed


lemma analyze_wellFormed: "trim s \<noteq> [] \<Longrightarrow> wellFormed (analyzeString lc now (trim s))"
  using trimmed_has_word [of s]
  by (simp add: wellFormed_def analyzeString_def Let_def trim_idem Suc_le_eq)

lemma set_update_subset: "set (AList.update k v al) \<subseteq> insert (k, v) (set al)"
  by (induction al) auto

lemma set_delete_subset: "set (AList.delete k al) \<subseteq> set al"
  by (induction al) auto

lemma handle_preserves:
  assumes "\<forall>(k, r) \<in> set st. wellFormed r"
  shows "\<forall>(k, r) \<in> set (snd (handle variant lc st req)). wellFormed r"
proof (cases req)
  case (Post now v)
  show ?thesis
  proof (cases variant)
    case HashKeyed
    with Post assms show ?thesis
      using set_update_subset
      by (auto simp: post_strings_v1_def Let_def setProperty_def analyze_wellFormed
          split: body_value.splits dest!: subsetD [OF set_update_subset])
  next
    case ValueKeyed
    with Post assms show ?thesis
      by (auto simp: post_strings_def Let_def setProperty_def analyze_wellFormed
          split: body_value.splits dest!: subsetD [OF set_update_subset])
  qed
next
  case (Delete key)
  with assms show ?thesis
    by (auto simp: delete_strings_def deleteProperty_def dest!: subsetD [OF set_delete_subset])
qed

lemma foldl_preserves:
  assumes "\<forall>(k, r) \<in> set st. wellFormed r"
  shows "\<forall>(k, r) \<in> set (foldl (\<lambda>st r. snd (handle variant lc st r)) st requests). wellFormed r"
  using assms
proof (induction requests arbitrary: st)
  case Nil
  then show ?case by simp
next
  case (Cons req requests)
  from Cons.prems have "\<forall>(k, r) \<in> set (snd (handle variant lc st req)). wellFormed r"
    by (rule handle_preserves)
  then show ?case using Cons.IH by simp
qed

text \<open>
  C10. After any sequence of create and delete requests, in either variant, every record
  in the store has a value that is equal to its own trim and is not empty, a length of at
  least 1 and a word count of at least 1.
\<close>

theorem stored_records_well_formed:
  assumes "(key, r) \<in> set (storeAfter variant lc requests)"
  shows "value_r r = trim (value_r r) \<and> value_r r \<noteq> [] \<and>
         1 \<le> length_p (properties r) \<and> 1 \<le> word_count (properties r)"
proof -
  have "\<forall>(k, r) \<in> set (storeAfter variant lc requests). wellFormed r"
    unfolding storeAfter_def by (rule foldl_preserves) simp
  with assms show ?thesis by (auto simp: wellFormed_def)
qed

text \<open>The store after one create of " racecar " holds the record of "racecar".\<close>

theorem stored_records_well_formed_witness:
  "(js ''racecar'', analyzeString asciiLowerCase (js ''2025-10-20T10:00:00.000Z'') (js ''racecar''))
     \<in> set (storeAfter ValueKeyed asciiLowerCase
         [Post (js ''2025-10-20T10:00:00.000Z'') (StringValue (js '' racecar ''))]) \<and>
   value_r (analyzeString asciiLowerCase (js ''2025-10-20T10:00:00.000Z'') (js ''racecar''))
     = js ''racecar'' \<and>
   1 \<le> length_p (properties
     (analyzeString asciiLowerCase (js ''2025-10-20T10:00:00.000Z'') (js ''racecar''))) \<and>
   1 \<le> word_count (properties
     (analyzeString asciiLowerCase (js ''2025-10-20T10:00:00.000Z'') (js ''racecar'')))"
proof -
  have t: "trim (js '' racecar '') = js ''racecar''"
    by (simp add: trim_def js_def isSpace_def)
  have u: "getProperty [] (js ''racecar'') = Undefined"
    by (simp add: getProperty_def objectPrototypeKeys_def js_def)
  have m: "(js ''racecar'', analyzeString asciiLowerCase (js ''2025-10-20T10:00:00.000Z'') (js ''racecar''))
     \<in> set (storeAfter ValueKeyed asciiLowerCase
         [Post (js ''2025-10-20T10:00:00.000Z'') (StringValue (js '' racecar ''))])"
    by (simp add: storeAfter_def post_strings_def Let_def t u setProperty_def) (simp add: js_def)
  from stored_records_well_formed [OF m] m show ?thesis
    by (simp add: analyzeString_def Let_def)
qed

text \<open>
  C3 (as amended). In either variant, a create of a value whose trim is not empty and whose
  key reads \<open>undefined\<close> in the store succeeds: it returns the analysis of the trimmed
  value and stores it under the key, which changes the store. A second create of a value
  with the same trim then fails with \<open>Duplicate\<close> and leaves the store as it is.
  Every request that fails leaves the store as it is.
\<close>

theorem create_then_duplicate:
  assumes "trim s \<noteq> []"
    and "getProperty st (storeKey variant (trim s)) = Undefined"
    and "trim s' = trim s"
  shows "handle variant lc st (Post now (StringValue s))
           = (Created (analyzeString lc now (trim s)),
              setProperty st (storeKey variant (trim s)) (analyzeString lc now (trim s))) \<and>
         getProperty (setProperty st (storeKey variant (trim s)) (analyzeString lc now (trim s)))
             (storeKey variant (trim s))
           = Own (analyzeString lc now (trim s)) \<and>
         setProperty st (storeKey variant (trim s)) (analyzeString lc now (trim s)) \<noteq> st \<and>
         handle variant lc
             (setProperty st (storeKey variant (trim s)) (analyzeString lc now (trim s)))
             (Post now' (StringValue s'))
           = (Failed Duplicate,
              setProperty st (storeKey variant (trim s)) (analyzeString lc now (trim s))) \<and>
         (\<forall>st0 req e. fst (handle variant lc st0 req) = Failed e
            \<longrightarrow> snd (handle variant lc st0 req) = st0)"
proof -
  let ?r = "analyzeString lc now (trim s)"
  let ?k = "storeKey variant (trim s)"
  let ?st' = "setProperty st ?k ?r"
  have id: "id_r (analyzeString lc t v) = sha256_hex v" for t v
    by (simp add: analyzeString_def Let_def)
  have first: "handle variant lc st (Post now (StringValue s)) = (Created ?r, ?st')"
    using assms(1,2) by (cases variant) (simp_all add: post_strings_v1_def post_strings_def Let_def id)
  have own: "getProperty ?st' ?k = Own ?r"
    by (simp add: getProperty_def setProperty_def update_conv')
  have "map_of st ?k = None"
    using assms(2) by (simp add: getProperty_def split: option.splits)
  moreover have "map_of ?st' ?k = Some ?r"
    by (simp add: setProperty_def update_conv')
  ultimately have changed: "?st' \<noteq> st" by auto
  have second: "handle variant lc ?st' (Post now' (StringValue s')) = (Failed Duplicate, ?st')"
    using assms(1,3) own
    by (cases variant) (simp_all add: post_strings_v1_def post_strings_def Let_def id)
  have fails: "snd (handle variant lc st0 req) = st0"
    if "fst (handle variant lc st0 req) = Failed e" for st0 req e
    using that
    by (cases req; cases variant)
      (auto simp: post_strings_v1_def post_strings_def delete_strings_def Let_def
        split: body_value.splits if_splits)
  from first own changed second fails show ?thesis by blast
qed

text \<open>
  Two creates of "racecar", with different white space around it, on the empty store of
  the second variant.
\<close>

theorem create_then_duplicate_witness:
  "trim (js '' racecar '') \<noteq> [] \<and>
   getProperty [] (storeKey ValueKeyed (trim (js '' racecar ''))) = Undefined \<and>
   trim (js ''racecar  '') = trim (js '' racecar '') \<and>
   fst (handle ValueKeyed asciiLowerCase [] (Post (js ''2025-10-20T10:00:00.000Z'')
      (StringValue (js '' racecar ''))))
     = Created (analyzeString asciiLowerCase (js ''2025-10-20T10:00:00.000Z'') (js ''racecar'')) \<and>
   handle ValueKeyed asciiLowerCase
       [(js ''racecar'', analyzeString asciiLowerCase (js ''2025-10-20T10:00:00.000Z'') (js ''racecar''))]
       (Post (js ''2025-10-21T10:00:00.000Z'') (StringValue (js ''racecar  '')))
     = (Failed Duplicate,
        [(js ''racecar'', analyzeString asciiLowerCase (js ''2025-10-20T10:00:00.000Z'') (js ''racecar''))]) \<and>
   fst (handle ValueKeyed asciiLowerCase [] (Delete (js ''racecar''))) = Failed NotFound \<and>
   snd (handle ValueKeyed asciiLowerCase [] (Delete (js ''racecar''))) = []"
proof -
  have t1: "trim (js '' racecar '') = js ''racecar''"
    by (simp add: trim_def js_def isSpace_def)
  have t2: "trim (js ''racecar  '') = js ''racecar''"
    by (simp add: trim_def js_def isSpace_def)
  have u: "getProperty [] (js ''racecar'') = Undefined"
    by (simp add: getProperty_def objectPrototypeKeys_def js_def)
  have h1: "trim (js '' racecar '') \<noteq> []"
    unfolding t1 by (simp add: js_def)
  have h2: "getProperty [] (storeKey ValueKeyed (trim (js '' racecar ''))) = Undefined"
    by (simp add: t1 u)
  have h3: "trim (js ''racecar  '') = trim (js '' racecar '')"
    by (simp add: t1 t2)
  have f: "fst (handle ValueKeyed asciiLowerCase [] (Delete (js ''racecar''))) = Failed NotFound"
    by (simp add: delete_strings_def u)
  note c = create_then_duplicate [OF h1 h2 h3, of asciiLowerCase "js ''2025-10-20T10:00:00.000Z''"
      "js ''2025-10-21T10:00:00.000Z''"]
  from c f have "snd (handle ValueKeyed asciiLowerCase [] (Delete (js ''racecar''))) = []"
    by blast
  with c f h1 h2 h3 show ?thesis by (simp add: t1 setProperty_def)
qed

text \<open>
  C3 as stated fails on a value of white space only: the create is refused with
  \<open>EmptyValue\<close> the first time.
\<close>

theorem create_of_blank_value_fails:
  "handle ValueKeyed asciiLowerCase [] (Post (js ''2025-10-20T10:00:00.000Z'') (StringValue (js ''   '')))
     = (Failed EmptyValue, []) \<and>
   handle HashKeyed asciiLowerCase [] (Post (js ''2025-10-20T10:00:00.000Z'') (StringValue (js ''   '')))
     = (Failed EmptyValue, [])"
  by (simp add: post_strings_def post_strings_v1_def trim_def js_def isSpace_def)

text \<open>
  In the second variant a first create of "constructor" is refused as well, with
  \<open>Duplicate\<close>: the read \<open>stringStore["constructor"]\<close> finds the property that the
  store object inherits.
\<close>

lemma create_of_inherited_key:
  "handle ValueKeyed asciiLowerCase [] (Post (js ''2025-10-20T10:00:00.000Z'')
      (StringValue (js ''constructor'')))
     = (Failed Duplicate, [])"
  by (simp add: post_strings_def Let_def getProperty_def objectPrototypeKeys_def)
    (simp add: trim_def js_def isSpace_def)

section \<open>Properties of the filter engine\<close>

lemma digit_unit:
  assumes "d < 10"
  shows "isDigit (of_nat (0x30 + d))" and "unat (of_nat (0x30 + d) :: char16) - 0x30 = d"
proof -
  have "unat (of_nat (0x30 + d) :: char16) = (0x30 + d) mod 2 ^ LENGTH(16)"
    by (rule unat_of_nat)
  also have "\<dots> = 0x30 + d"
    using assms by simp
  finally have u: "unat (of_nat (0x30 + d) :: char16) = 0x30 + d" .
  show "isDigit (of_nat (0x30 + d))"
    using u assms by (simp add: isDigit_def word_le_nat_alt)
  show "unat (of_nat (0x30 + d) :: char16) - 0x30 = d"
    using u by simp
qed

lemma digitsValue_snoc: "digitsValue (ds @ [c]) = 10 * digitsValue ds + (unat c - 0x30)"
  by (simp add: digitsValue_def)

lemma decimal_digits:
  "list_all isDigit (decimal n) \<and> decimal n \<noteq> [] \<and> digitsValue (decimal n) = n"
proof (induction n rule: decimal.induct)
  case (1 n)
  show ?case
  proof (cases "n < 10")
    case True
    then show ?thesis
      using digit_unit(1,2) [of n] by (simp add: decimal.simps [of n] digitsValue_def)
  next
    case False
    have m: "n mod 10 < 10" by simp
    from False "1.IH" show ?thesis
      using digit_unit(1,2) [OF m]
      by (simp add: decimal.simps [of n] digitsValue_snoc)
  qed
qed

lemma decimal_hd: "isDigit (hd (decimal n))"
  using decimal_digits [of n] by (cases "decimal n") simp_all

lemma isDigit_not_space: "isDigit c \<Longrightarrow> \<not> isSpace c"
  by (auto simp: isDigit_def isSpace_def word_le_nat_alt)

lemma isDigit_not_sign: "isDigit c \<Longrightarrow> c \<noteq> 0x2D \<and> c \<noteq> 0x2B"
  by (auto simp: isDigit_def)

subsection \<open>Doubles\<close>

lemma bitLength_le: "bitLength n \<le> k \<longleftrightarrow> n < 2 ^ k"
proof (induction n arbitrary: k rule: bitLength.induct)
  case (1 n)
  show ?case
  proof (cases "n = 0")
    case True
    then show ?thesis by (simp add: bitLength.simps [of 0])
  next
    case False
    show ?thesis
    proof (cases k)
      case 0
      with False show ?thesis by (simp add: bitLength.simps [of n])
    next
      case (Suc k')
      have "bitLength n \<le> Suc k' \<longleftrightarrow> bitLength (n div 2) \<le> k'"
        using False by (simp add: bitLength.simps [of n])
      also have "\<dots> \<longleftrightarrow> n div 2 < 2 ^ k'"
        using False by (rule "1.IH")
      also have "\<dots> \<longleftrightarrow> n < 2 ^ Suc k'"
        by auto
      finally show ?thesis using Suc by simp
    qed
  qed
qed

lemma roundToDouble_safe: "n < 2 ^ 53 \<Longrightarrow> roundToDouble n = Some n"
  by (simp add: roundToDouble_def bitLength_le)

lemma toDouble_safe: "\<bar>x\<bar> < 2 ^ 53 \<Longrightarrow> toDouble x = Finite x"
proof -
  assume a: "\<bar>x\<bar> < 2 ^ 53"
  then have "nat \<bar>x\<bar> < 2 ^ 53"
    by (simp add: nat_less_iff)
  then have "roundToDouble (nat \<bar>x\<bar>) = Some (nat \<bar>x\<bar>)"
    by (rule roundToDouble_safe)
  then show ?thesis by (simp add: toDouble_def)
qed

text \<open>A number of \<open>2 ^ 53\<close> or more rounds to a double of \<open>2 ^ 53\<close> or more.\<close>

lemma roundToDouble_big:
  assumes "2 ^ 53 \<le> m" and "roundToDouble m = Some v"
  shows "2 ^ 53 \<le> v"
proof -
  let ?b = "bitLength m"
  let ?e = "?b - 53"
  let ?q = "m div 2 ^ ?e"
  from assms(1) have big: "\<not> ?b \<le> 53"
    by (simp add: bitLength_le)
  then have e: "1 \<le> ?e" by simp
  have "\<not> ?b \<le> ?b - 1" using big by simp
  then have low: "2 ^ (?b - 1) \<le> m"
    by (simp add: bitLength_le not_less)
  have eq: "?b - 1 = 52 + ?e" using big by simp
  have "(2::nat) ^ (?b - 1) = 2 ^ 52 * 2 ^ ?e"
    by (subst eq) (rule power_add)
  with low have "(2::nat) ^ 52 * 2 ^ ?e \<le> m"
    by (simp only:)
  then have "(2::nat) ^ 52 * 2 ^ ?e div 2 ^ ?e \<le> ?q"
    by (rule div_le_mono)
  then have q: "(2::nat) ^ 52 \<le> ?q" by simp
  have "(2::nat) ^ 1 \<le> 2 ^ ?e"
    using e by (intro power_increasing) simp_all
  then have two: "(2::nat) \<le> 2 ^ ?e" by simp
  have "(2::nat) ^ 52 * 2 \<le> ?q * 2 ^ ?e"
    using q two by (rule mult_le_mono)
  moreover have "?q * 2 ^ ?e \<le> (?q + 1) * 2 ^ ?e" by simp
  ultimately have lo: "(2::nat) ^ 53 \<le> ?q * 2 ^ ?e" and hi: "(2::nat) ^ 53 \<le> (?q + 1) * 2 ^ ?e"
    by simp_all
  define q' where "q' = (if 2 * (m mod 2 ^ ?e) > 2 ^ ?e \<or> (2 * (m mod 2 ^ ?e) = 2 ^ ?e \<and> odd ?q)
      then ?q + 1 else ?q)"
  have "roundToDouble m = (if q' * 2 ^ ?e \<ge> doubleLimit then None else Some (q' * 2 ^ ?e))"
    using big unfolding roundToDouble_def Let_def q'_def by (simp only: if_False)
  with assms(2) have "v = q' * 2 ^ ?e"
    by (simp split: if_splits)
  moreover have "q' = ?q \<or> q' = ?q + 1"
    by (simp add: q'_def)
  ultimately show ?thesis using lo hi by auto
qed

lemma roundToDouble_to_safe:
  assumes "x < 2 ^ 53" and "roundToDouble m = Some x"
  shows "m = x"
proof (cases "m < 2 ^ 53")
  case True
  with assms(2) show ?thesis by (simp add: roundToDouble_safe)
next
  case False
  then have "2 ^ 53 \<le> m" by simp
  from roundToDouble_big [OF this assms(2)] assms(1) show ?thesis by simp
qed

text \<open>A safe integer is written with all its digits.\<close>

lemma shortestFrom_safe: "x < 2 ^ 53 \<Longrightarrow> shortestFrom x e = x"
proof (induction e)
  case 0
  then show ?case by simp
next
  case (Suc e)
  let ?lo = "x div 10 ^ Suc e * 10 ^ Suc e"
  let ?hi = "?lo + 10 ^ Suc e"
  have lo: "roundToDouble ?lo = Some x \<Longrightarrow> ?lo = x"
    using roundToDouble_to_safe [OF Suc.prems] .
  have "x mod 10 ^ Suc e < 10 ^ Suc e"
    by (rule mod_less_divisor) simp
  with div_mult_mod_eq [of x "10 ^ Suc e"] have "x < ?hi"
    by linarith
  then have hi: "roundToDouble ?hi \<noteq> Some x"
    using roundToDouble_to_safe [OF Suc.prems, of ?hi] by auto
  show ?case
    using lo hi Suc.IH [OF Suc.prems]
    by (simp add: Let_def del: power_Suc)
qed

lemma length_decimal: "0 < k \<Longrightarrow> n < 10 ^ k \<Longrightarrow> length (decimal n) \<le> k"
proof (induction n arbitrary: k rule: decimal.induct)
  case (1 n)
  show ?case
  proof (cases "n < 10")
    case True
    with "1.prems" show ?thesis by (simp add: decimal.simps [of n])
  next
    case False
    from "1.prems" obtain k' where k: "k = Suc k'" by (cases k) auto
    with False "1.prems" have "0 < k'" by (cases k') auto
    moreover from "1.prems" k have "n div 10 < 10 ^ k'" by auto
    ultimately have "length (decimal (n div 10)) \<le> k'"
      using False "1.IH" by blast
    with False k show ?thesis by (simp add: decimal.simps [of n])
  qed
qed

lemma numberToString_safe: "x < 2 ^ 53 \<Longrightarrow> numberToString x = decimal x"
proof -
  assume a: "x < 2 ^ 53"
  then have "x < 10 ^ 21" by simp
  then have "length (decimal x) \<le> 21"
    by (intro length_decimal) simp_all
  with a show ?thesis
    by (simp add: numberToString_def shortestDecimal_def shortestFrom_safe)
qed

subsection \<open>\<open>parseInt\<close> on numerals\<close>

lemma parseInt_decimal: "parseInt (decimal n) = Some (toDouble (int n))"
proof -
  have ne: "decimal n \<noteq> []" and all: "list_all isDigit (decimal n)"
    and v: "digitsValue (decimal n) = n"
    using decimal_digits [of n] by simp_all
  have d: "dropWhile isSpace (decimal n) = decimal n"
    using ne decimal_hd [of n] isDigit_not_space by (cases "decimal n") auto
  have t: "takeWhile isDigit (decimal n) = decimal n"
    using all by (simp add: list_all_iff)
  show ?thesis
    using ne decimal_hd [of n] isDigit_not_sign [of "hd (decimal n)"]
    by (simp add: parseInt_def Let_def d t v)
qed

lemma parseInt_minus_decimal: "parseInt (js ''-'' @ decimal n) = Some (toDouble (- int n))"
proof -
  have ne: "decimal n \<noteq> []" and all: "list_all isDigit (decimal n)"
    and v: "digitsValue (decimal n) = n"
    using decimal_digits [of n] by simp_all
  have t: "takeWhile isDigit (decimal n) = decimal n"
    using all by (simp add: list_all_iff)
  show ?thesis
    using ne by (simp add: parseInt_def Let_def js_def isSpace_def t v)
qed

lemma parseInt_numeral: "parseInt (numeral_js n) = Some (toDouble n)"
  by (simp add: numeral_js_def parseInt_decimal parseInt_minus_decimal)

lemma parseInt_toString_safe:
  assumes "\<bar>n\<bar> < 2 ^ 53"
  shows "parseInt (toString (JNum n)) = Some (Finite n)"
proof -
  from assms have "nat \<bar>n\<bar> < 2 ^ 53" by (simp add: nat_less_iff)
  then have "numberToString (nat \<bar>n\<bar>) = decimal (nat \<bar>n\<bar>)"
    by (rule numberToString_safe)
  then have "toString (JNum n) = numeral_js n"
    by (auto simp: numeral_js_def)
  with assms show ?thesis
    by (simp add: parseInt_numeral toDouble_safe)
qed

lemma ascii_literal: "list_all isAscii (js ''true'')" "list_all isAscii (js ''false'')"
  by (simp_all add: js_def isAscii_def)

lemma lower_true_false:
  assumes "conformingLowerCase lc"
  shows "lc (js ''true'') = js ''true''" and "lc (js ''false'') \<noteq> js ''true''"
proof -
  from assms have "lc (js ''true'') = asciiLowerCase (js ''true'')"
    and "lc (js ''false'') = asciiLowerCase (js ''false'')"
    using ascii_literal by (simp_all add: conformingLowerCase_def)
  then show "lc (js ''true'') = js ''true''" and "lc (js ''false'') \<noteq> js ''true''"
    by (simp_all add: asciiLowerCase_def js_def asciiLower_def isUpperAscii_def)
qed

lemma stage_filter:
  "(case x of None \<Rightarrow> rs | Some v \<Rightarrow> filter (P v) rs)
     = filter (\<lambda>item. case x of None \<Rightarrow> True | Some v \<Rightarrow> P v item) rs"
  by (cases x) simp_all

lemma stage_filter_int:
  "(case x of None \<Rightarrow> rs
    | Some v \<Rightarrow> (case f v of None \<Rightarrow> rs | Some n \<Rightarrow> filter (P n) rs))
     = filter (\<lambda>item. case x of None \<Rightarrow> True
                       | Some v \<Rightarrow> (case f v of None \<Rightarrow> True | Some n \<Rightarrow> P n item)) rs"
  by (cases x) (simp_all split: option.splits)

lemma stage_filter_if:
  "(case x of None \<Rightarrow> rs | Some v \<Rightarrow> if c v then filter (P v) rs else rs)
     = filter (\<lambda>item. case x of None \<Rightarrow> True | Some v \<Rightarrow> c v \<longrightarrow> P v item) rs"
  by (cases x) simp_all

lemma applyFilters_filter: "applyFilters lc data fs = filter (keeps lc fs) data"
proof -
  have "applyFilters lc data fs =
    filter (\<lambda>item. case f_contains_character fs of None \<Rightarrow> True
              | Some v \<Rightarrow> truthy v \<longrightarrow> includes_js (lc (value_r item)) (lc (toString v)))
     (filter (\<lambda>item. case f_word_count fs of None \<Rightarrow> True
              | Some v \<Rightarrow> (case parseInt (toString v) of None \<Rightarrow> True
                           | Some n \<Rightarrow> equal_js (word_count (properties item)) n))
       (filter (\<lambda>item. case f_max_length fs of None \<Rightarrow> True
                | Some v \<Rightarrow> (case parseInt (toString v) of None \<Rightarrow> True
                             | Some n \<Rightarrow> atMost_js (length_p (properties item)) n))
         (filter (\<lambda>item. case f_min_length fs of None \<Rightarrow> True
                  | Some v \<Rightarrow> (case parseInt (toString v) of None \<Rightarrow> True
                               | Some n \<Rightarrow> atLeast_js (length_p (properties item)) n))
           (filter (\<lambda>item. case f_is_palindrome fs of None \<Rightarrow> True
                    | Some v \<Rightarrow> is_palindrome (properties item) = (lc (toString v) = js ''true''))
             data))))"
    unfolding applyFilters_def Let_def
    by (simp only: stage_filter stage_filter_int stage_filter_if)
  also have "\<dots> = filter (keeps lc fs) data"
    unfolding filter_filter keeps_def by (rule filter_cong) auto
  finally show ?thesis .
qed

text \<open>
  For a filter set whose numbers are safe integers, given as the interpreter writes it or
  as query strings, the result consists of exactly the records that satisfy every filter
  present in the set; and every result is a subsequence of the records, in their order.
\<close>

lemma keeps_asValues:
  assumes "conformingLowerCase lc" and "safeFilterSet F"
  shows "keeps lc (asValues F) item = satisfies lc F item"
  using lower_true_false [OF assms(1)] assms(2)
  by (cases "is_palindrome_is F"; cases "min_length F"; cases "max_length F";
      cases "word_count_is F"; cases "contains_character F")
    (simp_all add: keeps_def satisfies_def asValues_def parseInt_toString_safe
      safeFilterSet_def safeInteger_def del: toString.simps(2))

lemma keeps_asQueryStrings:
  assumes "conformingLowerCase lc" and "safeFilterSet F"
  shows "keeps lc (asQueryStrings F) item = satisfies lc F item"
  using lower_true_false [OF assms(1)] assms(2)
  by (cases "is_palindrome_is F"; cases "min_length F"; cases "max_length F";
      cases "word_count_is F"; cases "contains_character F")
    (simp_all add: keeps_def satisfies_def asQueryStrings_def parseInt_numeral toDouble_safe
      safeFilterSet_def safeInteger_def)

lemma applyFilters_safe:
  assumes "conformingLowerCase lc" and "safeFilterSet F"
  shows "applyFilters lc data (asValues F) = filter (satisfies lc F) data"
    and "applyFilters lc data (asQueryStrings F) = filter (satisfies lc F) data"
  unfolding applyFilters_filter
  by (rule filter_cong; simp add: keeps_asValues [OF assms] keeps_asQueryStrings [OF assms])+

lemma applyFilters_subseq: "subseq (applyFilters lc data fs) data"
  by (simp add: applyFilters_filter)

lemma applyFilters_no_filter: "applyFilters lc data emptyFilters = data"
  by (simp add: applyFilters_def emptyFilters_def)

text \<open>
  C9. A value of \<open>min_length\<close>, \<open>max_length\<close> or \<open>word_count\<close> that is present in
  the filter object but for which \<open>parseInt\<close> gives \<open>NaN\<close> switches its filter off:
  \<open>applyFilters\<close> returns what it returns when the value is absent.
\<close>

theorem unparsable_numeric_filter_is_skipped:
  assumes "parseInt (toString v) = None"
  shows "applyFilters lc data (fs\<lparr>f_min_length := Some v\<rparr>)
           = applyFilters lc data (fs\<lparr>f_min_length := None\<rparr>) \<and>
         applyFilters lc data (fs\<lparr>f_max_length := Some v\<rparr>)
           = applyFilters lc data (fs\<lparr>f_max_length := None\<rparr>) \<and>
         applyFilters lc data (fs\<lparr>f_word_count := Some v\<rparr>)
           = applyFilters lc data (fs\<lparr>f_word_count := None\<rparr>)"
  using assms by (simp add: applyFilters_def)

text \<open>With \<open>min_length\<close> "abc" and no other filter, the record of "hello" is returned.\<close>

theorem unparsable_numeric_filter_is_skipped_witness:
  "parseInt (toString (JStr (js ''abc''))) = None \<and>
   applyFilters asciiLowerCase
       [analyzeString asciiLowerCase (js ''2025-10-20T10:00:00.000Z'') (js ''hello'')]
       (emptyFilters\<lparr>f_min_length := Some (JStr (js ''abc''))\<rparr>)
     = [analyzeString asciiLowerCase (js ''2025-10-20T10:00:00.000Z'') (js ''hello'')]"
proof -
  have h: "parseInt (toString (JStr (js ''abc''))) = None"
    by (simp add: parseInt_def js_def isSpace_def isDigit_def)
  from unparsable_numeric_filter_is_skipped [OF h, of asciiLowerCase
      "[analyzeString asciiLowerCase (js ''2025-10-20T10:00:00.000Z'') (js ''hello'')]"
      emptyFilters] h
  show ?thesis
    by (simp add: applyFilters_def emptyFilters_def)
qed

section \<open>Properties of the matcher\<close>

lemma startsWith_append: "startsWith s p \<Longrightarrow> s = p @ drop (length p) s"
  by (induction s p rule: startsWith.induct) auto

lemma startsWith_prefix: "startsWith (p @ r) p"
  by (induction p) auto

text \<open>
  Greedy repetition without backtracking: when what follows cannot start with a code unit
  of the class, the repetition takes the longest run.
\<close>

lemma repeatClass_skip:
  assumes "\<And>y ys. inClass c y \<Longrightarrow> T (y # ys) = None"
  shows "repeatClass c (\<lambda>p' s'. T s') p s = T (dropWhile (inClass c) s)"
proof (induction s arbitrary: p)
  case Nil
  then show ?case by simp
next
  case (Cons x xs)
  show ?case
  proof (cases "inClass c x")
    case True
    have "repeatClass c (\<lambda>p' s'. T s') p (x # xs) = repeatClass c (\<lambda>p' s'. T s') (Some x) xs"
      using True assms [OF True, of xs] by (simp split: option.splits)
    with True Cons [of "Some x"] show ?thesis by simp
  next
    case False
    then show ?thesis by simp
  qed
qed

lemma inClass_space: "inClass SpaceClass = isSpace"
  by (rule ext) simp

lemma space_not_alnum: "isSpace y \<Longrightarrow> \<not> isLowerAlnum y"
  by (auto simp: charClasses word_le_nat_alt)

subsection \<open>The pattern of the "contains" rule and the phrase it stands for\<close>

text \<open>
  The pattern is matched from its end to its start: each lemma says what the rest of the
  pattern, from one element on, matches at a position. The continuation \<open>\<lambda>p s caps. Some caps\<close>
  is the end of the pattern.
\<close>

lemma captured_None: "captured i caps None = None"
  by (simp add: captured_def)

lemma contains_group:
  "matchSeq [Group i [Cls LowerAlnumClass]] (\<lambda>p s caps. Some caps) p s caps
     = captured i caps (alnumHere s)"
  by (cases s) (simp_all add: alnumHere_def captured_def)

lemma alnumHere_space: "isSpace y \<Longrightarrow> alnumHere (y # ys) = None"
  by (simp add: alnumHere_def space_not_alnum)

lemma contains_star:
  "matchSeq [Star SpaceClass, Group i [Cls LowerAlnumClass]] (\<lambda>p s caps. Some caps) p s caps
     = captured i caps (alnumHere (dropWhile isSpace s))"
proof -
  let ?T = "\<lambda>s. captured i caps (alnumHere s)"
  have "matchSeq [Star SpaceClass, Group i [Cls LowerAlnumClass]] (\<lambda>p s caps. Some caps) p s caps
      = repeatClass SpaceClass (\<lambda>p' s'. ?T s') p s"
    by (simp only: matchSeq.simps(4) contains_group)
  also have "\<dots> = ?T (dropWhile (inClass SpaceClass) s)"
    by (rule repeatClass_skip) (simp add: alnumHere_space captured_def)
  finally show ?thesis by (simp add: inClass_space)
qed

lemma contains_noun:
  "matchSeq [Alt [[Lit ''letter''], [Lit ''character'']], Star SpaceClass,
             Group i [Cls LowerAlnumClass]] (\<lambda>p s caps. Some caps) p s caps
     = captured i caps (nounThenX s)"
proof -
  let ?K = "\<lambda>(p::char16 option) s caps. captured i caps (alnumHere (dropWhile isSpace s))"
  have K: "matchSeq [Star SpaceClass, Group i [Cls LowerAlnumClass]] (\<lambda>p s caps. Some caps) = ?K"
    by (intro ext) (rule contains_star)
  have "matchSeq [Alt [[Lit ''letter''], [Lit ''character'']], Star SpaceClass,
             Group i [Cls LowerAlnumClass]] (\<lambda>p s caps. Some caps) p s caps
      = matchAlts [[Lit ''letter''], [Lit ''character'']] ?K p s caps"
    by (simp only: matchSeq.simps(8) K)
  also have "\<dots> = captured i caps (nounThenX s)"
  proof (cases "startsWith s (js ''letter'')")
    case True
    then obtain r where "s = js ''letter'' @ r"
      using startsWith_append by blast
    then show ?thesis by (simp add: nounThenX_def js_def captured_def split: option.splits)
  next
    case False
    then show ?thesis by (simp add: nounThenX_def captured_def split: option.splits)
  qed
  finally show ?thesis .
qed

lemma nounThenX_space: "isSpace y \<Longrightarrow> nounThenX (y # ys) = None"
  by (auto simp: nounThenX_def js_def isSpace_def)

lemma nounThenX_the:
  assumes "startsWith s (js ''the'')"
  shows "nounThenX s = None"
proof -
  from assms obtain r where "s = js ''the'' @ r"
    using startsWith_append by blast
  then show ?thesis by (simp add: nounThenX_def js_def)
qed

lemma contains_the:
  "matchSeq [Opt [Lit ''the'', Plus SpaceClass], Alt [[Lit ''letter''], [Lit ''character'']],
             Star SpaceClass, Group i [Cls LowerAlnumClass]] (\<lambda>p s caps. Some caps) p s caps
     = captured i caps (nounThenX (skipThe s))"
proof -
  let ?T = "\<lambda>s. captured i caps (nounThenX s)"
  let ?K = "\<lambda>(p::char16 option) s caps. captured i caps (nounThenX s)"
  have K: "matchSeq [Alt [[Lit ''letter''], [Lit ''character'']], Star SpaceClass,
             Group i [Cls LowerAlnumClass]] (\<lambda>p s caps. Some caps) = ?K"
    by (intro ext) (rule contains_noun)
  have r: "repeatClass SpaceClass (\<lambda>p' s'. ?T s') q xs = ?T (dropWhile isSpace xs)" for q xs
    using repeatClass_skip [of SpaceClass ?T q xs]
    by (simp add: nounThenX_space inClass_space captured_def)
  have body: "matchSeq [Lit ''the'', Plus SpaceClass] ?K p s caps
      = (case stripAny [''the''] s of None \<Rightarrow> None
         | Some t \<Rightarrow> (case skipSpaces1 t of None \<Rightarrow> None | Some t' \<Rightarrow> ?T t'))"
    by (simp add: skipSpaces1_def r split: list.splits)
  have "matchSeq [Opt [Lit ''the'', Plus SpaceClass], Alt [[Lit ''letter''], [Lit ''character'']],
             Star SpaceClass, Group i [Cls LowerAlnumClass]] (\<lambda>p s caps. Some caps) p s caps
      = (case matchSeq [Lit ''the'', Plus SpaceClass] ?K p s caps of
           None \<Rightarrow> ?T s | Some x \<Rightarrow> Some x)"
    by (simp only: matchSeq.simps(7) K)
  also have "\<dots> = ?T (skipThe s)"
    unfolding body skipThe_def
    by (auto simp: nounThenX_the captured_def split: option.splits if_splits)
  finally show ?thesis .
qed

lemma skipThe_space: "isSpace y \<Longrightarrow> skipThe (y # ys) = y # ys"
  by (auto simp: skipThe_def js_def isSpace_def)

lemma contains_spaces:
  "matchSeq [Plus SpaceClass, Opt [Lit ''the'', Plus SpaceClass],
             Alt [[Lit ''letter''], [Lit ''character'']],
             Star SpaceClass, Group i [Cls LowerAlnumClass]] (\<lambda>p s caps. Some caps) p s caps
     = captured i caps (afterVerb s)"
proof -
  let ?T = "\<lambda>s. captured i caps (nounThenX (skipThe s))"
  have r: "repeatClass SpaceClass (\<lambda>p' s'. ?T s') q xs = ?T (dropWhile isSpace xs)" for q xs
    using repeatClass_skip [of SpaceClass ?T q xs]
    by (simp add: nounThenX_space skipThe_space inClass_space captured_def)
  show ?thesis
    by (simp only: matchSeq.simps(5) contains_the)
      (simp add: afterVerb_def skipSpaces1_def r captured_None split: list.splits)
qed

lemma contains_verb:
  "matchAlts [[Lit ''contains''], [Lit ''containing''], [Lit ''has''], [Lit ''with'']]
      (\<lambda>p s caps. captured i caps (afterVerb s)) p s caps
     = captured i caps (containsPhraseAt s)"
proof -
  consider (a) r where "s = js ''contains'' @ r" | (b) r where "s = js ''containing'' @ r"
    | (c) r where "s = js ''has'' @ r" | (d) r where "s = js ''with'' @ r"
    | (e) "\<not> startsWith s (js ''contains'')" "\<not> startsWith s (js ''containing'')"
          "\<not> startsWith s (js ''has'')" "\<not> startsWith s (js ''with'')"
    using startsWith_append by blast
  then show ?thesis
  proof cases
    case a
    then show ?thesis
      by (simp add: js_def containsPhraseAt_def captured_def split: option.splits)
  next
    case b
    then show ?thesis
      by (simp add: js_def containsPhraseAt_def captured_def split: option.splits)
  next
    case c
    then show ?thesis
      by (simp add: js_def containsPhraseAt_def captured_def split: option.splits)
  next
    case d
    then show ?thesis
      by (simp add: js_def containsPhraseAt_def captured_def split: option.splits)
  next
    case e
    then show ?thesis
      by (simp add: containsPhraseAt_def captured_def)
  qed
qed

text \<open>
  At a position, the pattern of the second variant matches exactly where a phrase starts,
  and captures its X; over a text, \<open>match\<close> gives the X of the leftmost phrase.
\<close>

lemma reContains_at:
  "matchSeq reContains (\<lambda>p s caps. Some caps) p s [] = captured 1 [] (containsPhraseAt s)"
proof -
  have K: "matchSeq [Plus SpaceClass, Opt [Lit ''the'', Plus SpaceClass],
             Alt [[Lit ''letter''], [Lit ''character'']],
             Star SpaceClass, Group 1 [Cls LowerAlnumClass]] (\<lambda>p s caps. Some caps)
           = (\<lambda>p s caps. captured 1 caps (afterVerb s))"
    by (intro ext) (rule contains_spaces)
  have "matchSeq reContains (\<lambda>p s caps. Some caps) p s []
      = matchAlts [[Lit ''contains''], [Lit ''containing''], [Lit ''has''], [Lit ''with'']]
          (\<lambda>p s caps. captured 1 caps (afterVerb s)) p s []"
    unfolding reContains_def by (simp only: matchSeq.simps(8) K)
  then show ?thesis by (simp only: contains_verb)
qed

lemma reContains_search:
  "searchFrom reContains p s = captured 1 [] (firstContainsPhrase s)"
proof (induction s arbitrary: p)
  case Nil
  have "containsPhraseAt [] = None" by (simp add: containsPhraseAt_def js_def)
  then show ?case by (simp only: searchFrom.simps reContains_at) (simp add: captured_def)
next
  case (Cons c cs)
  show ?case
    by (simp only: searchFrom.simps reContains_at Cons)
      (simp add: captured_def split: option.splits)
qed

lemma reContains_exec:
  "regexExec reContains q = map_option (\<lambda>x. [(1, [x])]) (firstContainsPhrase q)"
  by (simp add: regexExec_def reContains_search captured_def)

subsection \<open>The pattern of the first variant\<close>

lemma lit_group_class:
  "matchSeq [Lit w, Group i [Cls c]] (\<lambda>p s caps. Some caps) p s caps
     = (if startsWith s (js w) then
          (case drop (length w) s of [] \<Rightarrow> None
           | x # _ \<Rightarrow> if inClass c x then Some (AList.update i [x] caps) else None)
        else None)"
proof -
  have g: "matchSeq [Group i [Cls c]] (\<lambda>p s caps. Some caps) q t caps
      = (case t of [] \<Rightarrow> None
         | x # _ \<Rightarrow> if inClass c x then Some (AList.update i [x] caps) else None)" for q t
    by (cases t) simp_all
  show ?thesis by (simp only: matchSeq.simps(2) g)
qed

lemma matchSeq_end: "matchSeq [] k = k"
  by (intro ext) simp

lemma reContains_v1_at:
  "matchSeq reContains_v1 (\<lambda>p s caps. Some caps) p s []
     = map_option (\<lambda>(i, x). [(i, [x])]) (phraseAmong phrases_v1 s)"
  unfolding reContains_v1_def
  by (simp only: matchSeq.simps(8) matchSeq_end matchAlts.simps lit_group_class)
    (simp add: phrases_v1_def split: list.splits)

lemma reContains_v1_search:
  "searchFrom reContains_v1 p s = map_option (\<lambda>(i, x). [(i, [x])]) (firstPhrase_v1 s)"
proof (induction s arbitrary: p)
  case Nil
  have "phraseAmong phrases_v1 [] = None" by (simp add: phrases_v1_def js_def)
  then show ?case by (simp only: searchFrom.simps reContains_v1_at) simp
next
  case (Cons c cs)
  show ?case
    by (simp only: searchFrom.simps reContains_v1_at Cons) (simp split: option.splits)
qed

lemma reContains_v1_exec:
  "regexExec reContains_v1 q = map_option (\<lambda>(i, x). [(i, [x])]) (firstPhrase_v1 q)"
  by (simp add: regexExec_def reContains_v1_search)

subsection \<open>The pattern of the word-count rule\<close>

lemma single_word_at:
  assumes "\<not> wordBefore p" and "startsWith s (js ''single word'')"
    and "\<not> wordAfter (drop (length (js ''single word'')) s)"
  shows "matchSeq reSingleWord (\<lambda>p s caps. Some caps) p s [] \<noteq> None"
proof -
  from assms(2) obtain r where s: "s = js ''single word'' @ r"
    using startsWith_append by blast
  with assms(3) have "\<not> wordAfter r" by (simp add: js_def)
  with assms(1) s show ?thesis
    by (simp add: reSingleWord_def js_def wordBoundary_def wordBefore_def wordAfter_def
        before_def charClasses)
qed

lemma one_word_at:
  assumes "\<not> wordBefore p" and "startsWith s (js ''one word'')"
    and "\<not> wordAfter (drop (length (js ''one word'')) s)"
  shows "matchSeq reSingleWord (\<lambda>p s caps. Some caps) p s [] \<noteq> None"
proof -
  from assms(2) obtain r where s: "s = js ''one word'' @ r"
    using startsWith_append by blast
  with assms(3) have "\<not> wordAfter r" by (simp add: js_def)
  with assms(1) s show ?thesis
    by (simp add: reSingleWord_def js_def wordBoundary_def wordBefore_def wordAfter_def
        before_def charClasses)
qed

lemma whole_words_search:
  assumes "\<And>p s. \<not> wordBefore p \<Longrightarrow> startsWith s ph \<Longrightarrow> \<not> wordAfter (drop (length ph) s)
             \<Longrightarrow> matchSeq re (\<lambda>p s caps. Some caps) p s [] \<noteq> None"
  shows "wholeWordsFrom ph p s \<Longrightarrow> searchFrom re p s \<noteq> None"
proof (induction s arbitrary: p)
  case Nil
  then show ?case by simp
next
  case (Cons c cs)
  show ?case
  proof (cases "matchSeq re (\<lambda>p s caps. Some caps) p (c # cs) []")
    case (Some r)
    then show ?thesis by simp
  next
    case None
    with assms [of p "c # cs"] Cons.prems have "wholeWordsFrom ph (Some c) cs"
      by auto
    then have "searchFrom re (Some c) cs \<noteq> None" by (rule Cons.IH)
    with None show ?thesis by simp
  qed
qed

lemma single_word_test:
  "containsPhrase ''single word'' q \<or> containsPhrase ''one word'' q \<Longrightarrow> regexTest reSingleWord q"
  unfolding containsPhrase_def regexTest_def regexExec_def
  using whole_words_search [of "js ''single word''" reSingleWord None q, OF single_word_at]
        whole_words_search [of "js ''one word''" reSingleWord None q, OF one_word_at]
  by blast

section \<open>Properties of the query interpreter\<close>

lemmas matcherEval =
  regexTest_def regexExec_def group_def js_def wordBoundary_def before_def charClasses

lemma extract_word_count:
  "f_word_count (extractFilters q) = (if regexTest reSingleWord q then Some (JNum 1) else None)"
  by (simp add: extractFilters_def Let_def emptyFilters_def split: option.splits)

lemma extract_contains_character:
  "f_contains_character (extractFilters q) =
     (if regexTest reFirstVowel q then Some (JStr (js ''a''))
      else (case regexExec reContains q of None \<Rightarrow> None
            | Some m \<Rightarrow> map_option JStr (group m 1)))"
  by (simp add: extractFilters_def Let_def emptyFilters_def split: option.splits)

lemma extract_v1_word_count:
  "f_word_count (extractFilters_v1 q)
     = (if includes_js q (js ''single word'') then Some (JNum 1) else None)"
  by (simp add: extractFilters_v1_def Let_def emptyFilters_def split: option.splits)

lemma extract_v1_contains_character:
  "f_contains_character (extractFilters_v1 q) =
     (case regexExec reContains_v1 q of None \<Rightarrow> None
      | Some m \<Rightarrow> (case group m 1 of None \<Rightarrow> None
                   | Some c \<Rightarrow> if c \<noteq> [] then Some (JStr c) else None))"
  by (simp add: extractFilters_v1_def Let_def emptyFilters_def split: option.splits)

text \<open>
  The first variant reads one length phrase, the leftmost, so it sets at most one of
  \<open>min_length\<close> and \<open>max_length\<close>: its check for conflicting filters never fires.
\<close>

lemma extract_v1_one_bound:
  "f_min_length (extractFilters_v1 q) = None \<or> f_max_length (extractFilters_v1 q) = None"
  by (simp add: extractFilters_v1_def Let_def emptyFilters_def split: option.splits)

lemma parse_v1_never_conflicts:
  "parseNaturalLanguage_v1 lc query = Inr (extractFilters_v1 (lc query))"
  using extract_v1_one_bound [of "lc query"]
  by (auto simp: parseNaturalLanguage_v1_def conflicting_def Let_def split: option.splits)

text \<open>
  The second variant reports every conflict between the bounds it has extracted.
\<close>

lemma extract_nothing_from_empty: "extractFilters [] = emptyFilters"
  by (simp add: extractFilters_def Let_def emptyFilters_def matcherEval rePalindrome_def
      reSingleWord_def reContains_def reFirstVowel_def reLonger_def reShorter_def reExactly_def)

lemma parse_reports_conflict:
  assumes "f_min_length (extractFilters (trim (lc query))) = Some (JNum a)"
    and "f_max_length (extractFilters (trim (lc query))) = Some (JNum b)"
    and "a > b"
  shows "parseNaturalLanguage lc query = Inl ConflictingFilters"
proof -
  from assms(1) have "trim (lc query) \<noteq> []"
    by (auto simp: extract_nothing_from_empty emptyFilters_def)
  with assms show ?thesis
    by (simp add: parseNaturalLanguage_def conflicting_def Let_def)
qed

text \<open>
  C2. The query "strings longer than 20 but shorter than 5": the first variant answers
  with the filter \<open>min_length = 21\<close> alone, where the claim asks for the conflict error;
  the second variant answers with the conflict error.
\<close>

theorem conflict_is_missed_by_first_variant:
  "parseNaturalLanguage_v1 asciiLowerCase (js ''strings longer than 20 but shorter than 5'')
     = Inr (emptyFilters\<lparr>f_min_length := Some (JNum 21)\<rparr>) \<and>
   parseNaturalLanguage asciiLowerCase (js ''strings longer than 20 but shorter than 5'')
     = Inl ConflictingFilters"
proof -
  let ?q = "js ''strings longer than 20 but shorter than 5''"
  have lower: "asciiLowerCase ?q = ?q"
    by (simp add: asciiLowerCase_def js_def asciiLower_def isUpperAscii_def)
  have trimmed: "trim ?q = ?q"
    by (simp add: trim_def js_def isSpace_def)
  have i1: "\<not> includes_js ?q (js ''palindrome'')" "\<not> includes_js ?q (js ''palindromic'')"
    "\<not> includes_js ?q (js ''single word'')"
    by (simp_all add: js_def)
  have c1: "regexExec reContains_v1 ?q = None"
    by (simp add: reContains_v1_exec) (simp add: phrases_v1_def js_def)
  have l1: "regexExec reLength_v1 ?q = Some [(1, js ''longer''), (2, js ''20'')]"
    by (simp add: reLength_v1_def matcherEval)
  have n20: "parseInt (js ''20'') = Some (Finite 20)" and n5: "parseInt (js ''5'') = Some (Finite 5)"
    by (simp_all add: parseInt_def digitsValue_def js_def isSpace_def isDigit_def toDouble_safe)
  have v1: "extractFilters_v1 ?q = emptyFilters\<lparr>f_min_length := Some (JNum 21)\<rparr>"
    unfolding extractFilters_v1_def Let_def
    by (simp add: i1 c1 l1 group_def parseIntGroup_def n20 number_def toDouble_safe)
  have min: "f_min_length (extractFilters ?q) = Some (JNum 21)"
  proof -
    have "regexExec reLonger ?q = Some [(1, js ''longer''), (2, js ''20'')]"
      by (simp add: reLonger_def matcherEval)
    moreover have "regexExec reExactly ?q = None"
      by (simp add: reExactly_def matcherEval)
    ultimately show ?thesis
      by (simp add: extractFilters_def Let_def group_def parseIntGroup_def n20 number_def toDouble_safe
          split: option.splits)
  qed
  have max: "f_max_length (extractFilters ?q) = Some (JNum 4)"
  proof -
    have "regexExec reShorter ?q = Some [(1, js ''shorter''), (2, js ''5'')]"
      by (simp add: reShorter_def matcherEval)
    moreover have "regexExec reExactly ?q = None"
      by (simp add: reExactly_def matcherEval)
    ultimately show ?thesis
      by (simp add: extractFilters_def Let_def group_def parseIntGroup_def n5 number_def toDouble_safe
          split: option.splits)
  qed
  have "parseNaturalLanguage asciiLowerCase ?q = Inl ConflictingFilters"
    by (rule parse_reports_conflict [where a = 21 and b = 4]) (simp_all add: lower trimmed min max)
  then show ?thesis
    by (simp add: parse_v1_never_conflicts lower v1)
qed

text \<open>
  C7 (as amended). The first variant sets \<open>word_count = 1\<close> for every query whose
  lower-cased text contains "single word". The second variant does so for every query
  whose lower-cased, trimmed text contains "single word" or "one word" as whole words,
  unless it answers with the conflict error.
\<close>

theorem word_count_rule:
  "(includes_js (lc query) (js ''single word'')
      \<longrightarrow> (\<exists>fs. parseNaturalLanguage_v1 lc query = Inr fs \<and> f_word_count fs = Some (JNum 1))) \<and>
   (containsPhrase ''single word'' (trim (lc query)) \<or> containsPhrase ''one word'' (trim (lc query))
      \<longrightarrow> parseNaturalLanguage lc query = Inl ConflictingFilters \<or>
          (\<exists>fs. parseNaturalLanguage lc query = Inr fs \<and> f_word_count fs = Some (JNum 1)))"
proof (intro conjI impI)
  assume "includes_js (lc query) (js ''single word'')"
  then show "\<exists>fs. parseNaturalLanguage_v1 lc query = Inr fs \<and> f_word_count fs = Some (JNum 1)"
    by (simp add: parse_v1_never_conflicts extract_v1_word_count)
next
  let ?q = "trim (lc query)"
  assume a: "containsPhrase ''single word'' ?q \<or> containsPhrase ''one word'' ?q"
  then have t: "regexTest reSingleWord ?q" by (rule single_word_test)
  from a have "?q \<noteq> []" by (auto simp: containsPhrase_def)
  with t show "parseNaturalLanguage lc query = Inl ConflictingFilters \<or>
      (\<exists>fs. parseNaturalLanguage lc query = Inr fs \<and> f_word_count fs = Some (JNum 1))"
    by (simp add: parseNaturalLanguage_def Let_def extract_word_count)
qed

text \<open>
  "A Single Word" in the first variant, and " All ONE WORD strings " in the second.
\<close>

theorem word_count_rule_witness:
  "includes_js (asciiLowerCase (js ''A Single Word'')) (js ''single word'') \<and>
   (\<exists>fs. parseNaturalLanguage_v1 asciiLowerCase (js ''A Single Word'') = Inr fs
      \<and> f_word_count fs = Some (JNum 1)) \<and>
   containsPhrase ''one word'' (trim (asciiLowerCase (js '' All ONE WORD strings ''))) \<and>
   parseNaturalLanguage asciiLowerCase (js '' All ONE WORD strings '') \<noteq> Inl ConflictingFilters \<and>
   (\<exists>fs. parseNaturalLanguage asciiLowerCase (js '' All ONE WORD strings '') = Inr fs
      \<and> f_word_count fs = Some (JNum 1))"
proof -
  have h1: "includes_js (asciiLowerCase (js ''A Single Word'')) (js ''single word'')"
    by (simp add: asciiLowerCase_def js_def asciiLower_def isUpperAscii_def)
  have q: "trim (asciiLowerCase (js '' All ONE WORD strings '')) = js ''all one word strings''"
    by (simp add: trim_def asciiLowerCase_def js_def asciiLower_def isUpperAscii_def isSpace_def)
  have h2: "containsPhrase ''one word'' (trim (asciiLowerCase (js '' All ONE WORD strings '')))"
    unfolding q
    by (simp add: containsPhrase_def wordBefore_def wordAfter_def js_def charClasses)
  have m: "f_min_length (extractFilters (js ''all one word strings'')) = None"
  proof -
    have "regexExec reLonger (js ''all one word strings'') = None"
      by (simp add: reLonger_def matcherEval)
    moreover have "regexExec reExactly (js ''all one word strings'') = None"
      by (simp add: reExactly_def matcherEval)
    ultimately show ?thesis
      by (simp add: extractFilters_def Let_def emptyFilters_def split: option.splits)
  qed
  have n: "parseNaturalLanguage asciiLowerCase (js '' All ONE WORD strings '') \<noteq> Inl ConflictingFilters"
    by (simp add: parseNaturalLanguage_def Let_def q conflicting_def m)
  from word_count_rule [of asciiLowerCase "js ''A Single Word''"]
       word_count_rule [of asciiLowerCase "js '' All ONE WORD strings ''"] h1 h2 n
  show ?thesis by blast
qed

text \<open>
  C7 as stated fails in the first variant, which knows "single word" only: the query
  "one word" gives no filter.
\<close>

theorem one_word_is_unknown_to_first_variant:
  "parseNaturalLanguage_v1 asciiLowerCase (js ''one word'') = Inr emptyFilters"
proof -
  let ?q = "js ''one word''"
  have lower: "asciiLowerCase ?q = ?q"
    by (simp add: asciiLowerCase_def js_def asciiLower_def isUpperAscii_def)
  have i1: "\<not> includes_js ?q (js ''palindrome'')" "\<not> includes_js ?q (js ''palindromic'')"
    "\<not> includes_js ?q (js ''single word'')"
    by (simp_all add: js_def)
  have c1: "regexExec reContains_v1 ?q = None"
    by (simp add: reContains_v1_exec) (simp add: phrases_v1_def js_def)
  have l1: "regexExec reLength_v1 ?q = None"
    by (simp add: reLength_v1_def matcherEval)
  show ?thesis
    by (simp add: parse_v1_never_conflicts lower extractFilters_v1_def Let_def i1 c1 l1)
qed

text \<open>
  C6 (as amended). In the second variant, when the lower-cased, trimmed text has a phrase
  "contains/containing/has/with [the] letter/character X", with white space between the
  words and X a lower-case ASCII letter or a digit, \<open>contains_character\<close> is the X of the
  leftmost such phrase, or "a" when the text also has "first vowel", unless the answer is
  the conflict error. In the first variant, when the leftmost of its four phrases in the
  lower-cased text is "contains the letter X", \<open>contains_character\<close> is X.
\<close>

theorem contains_character_rule:
  "(firstContainsPhrase (trim (lc query)) = Some x
      \<longrightarrow> parseNaturalLanguage lc query = Inl ConflictingFilters \<or>
          (\<exists>fs. parseNaturalLanguage lc query = Inr fs \<and>
                f_contains_character fs
                  = Some (JStr (if regexTest reFirstVowel (trim (lc query)) then js ''a'' else [x])))) \<and>
   (firstPhrase_v1 (lc query) = Some (1, x)
      \<longrightarrow> (\<exists>fs. parseNaturalLanguage_v1 lc query = Inr fs \<and>
                f_contains_character fs = Some (JStr [x])))"
proof (intro conjI impI)
  let ?q = "trim (lc query)"
  assume a: "firstContainsPhrase ?q = Some x"
  then have "?q \<noteq> []" by auto
  moreover from a have "regexExec reContains ?q = Some [(1, [x])]"
    by (simp add: reContains_exec)
  ultimately show "parseNaturalLanguage lc query = Inl ConflictingFilters \<or>
      (\<exists>fs. parseNaturalLanguage lc query = Inr fs \<and>
            f_contains_character fs
              = Some (JStr (if regexTest reFirstVowel ?q then js ''a'' else [x])))"
    by (simp add: parseNaturalLanguage_def Let_def extract_contains_character group_def)
next
  assume "firstPhrase_v1 (lc query) = Some (1, x)"
  then have "regexExec reContains_v1 (lc query) = Some [(1, [x])]"
    by (simp add: reContains_v1_exec)
  then show "\<exists>fs. parseNaturalLanguage_v1 lc query = Inr fs \<and>
      f_contains_character fs = Some (JStr [x])"
    by (simp add: parse_v1_never_conflicts extract_v1_contains_character group_def)
qed

text \<open>"Strings CONTAINING the  letter Z" in the second variant, "contains the letter z" in the first.\<close>

theorem contains_character_rule_witness:
  "firstContainsPhrase (trim (asciiLowerCase (js ''Strings CONTAINING the  letter Z''))) = Some 0x7A \<and>
   parseNaturalLanguage asciiLowerCase (js ''Strings CONTAINING the  letter Z'')
     \<noteq> Inl ConflictingFilters \<and>
   (\<exists>fs. parseNaturalLanguage asciiLowerCase (js ''Strings CONTAINING the  letter Z'') = Inr fs \<and>
         f_contains_character fs = Some (JStr (js ''z''))) \<and>
   firstPhrase_v1 (asciiLowerCase (js ''contains the letter z'')) = Some (1, 0x7A) \<and>
   (\<exists>fs. parseNaturalLanguage_v1 asciiLowerCase (js ''contains the letter z'') = Inr fs \<and>
         f_contains_character fs = Some (JStr (js ''z'')))"
proof -
  let ?q = "js ''strings containing the  letter z''"
  have q: "trim (asciiLowerCase (js ''Strings CONTAINING the  letter Z'')) = ?q"
    by (simp add: trim_def asciiLowerCase_def js_def asciiLower_def isUpperAscii_def isSpace_def)
  have h1: "firstContainsPhrase (trim (asciiLowerCase (js ''Strings CONTAINING the  letter Z'')))
      = Some 0x7A"
    unfolding q
    by (simp add: containsPhraseAt_def afterVerb_def nounThenX_def skipThe_def skipSpaces1_def
        alnumHere_def js_def charClasses)
  have v: "\<not> regexTest reFirstVowel ?q"
    by (simp add: reFirstVowel_def matcherEval)
  have m: "f_min_length (extractFilters ?q) = None"
  proof -
    have "regexExec reLonger ?q = None"
      by (simp add: reLonger_def matcherEval)
    moreover have "regexExec reExactly ?q = None"
      by (simp add: reExactly_def matcherEval)
    ultimately show ?thesis
      by (simp add: extractFilters_def Let_def emptyFilters_def split: option.splits)
  qed
  have n: "parseNaturalLanguage asciiLowerCase (js ''Strings CONTAINING the  letter Z'')
      \<noteq> Inl ConflictingFilters"
    by (simp add: parseNaturalLanguage_def Let_def q conflicting_def m)
  have l: "asciiLowerCase (js ''contains the letter z'') = js ''contains the letter z''"
    by (simp add: asciiLowerCase_def js_def asciiLower_def isUpperAscii_def)
  have h2: "firstPhrase_v1 (asciiLowerCase (js ''contains the letter z'')) = Some (1, 0x7A)"
    unfolding l by (simp add: phrases_v1_def js_def charClasses)
  from contains_character_rule [of asciiLowerCase "js ''Strings CONTAINING the  letter Z''" "0x7A"]
       h1 n v q
  have a: "\<exists>fs. parseNaturalLanguage asciiLowerCase (js ''Strings CONTAINING the  letter Z'') = Inr fs \<and>
         f_contains_character fs = Some (JStr (js ''z''))"
    by (simp add: js_def)
  from contains_character_rule [of asciiLowerCase "js ''contains the letter z''" "0x7A"] h2
  have b: "\<exists>fs. parseNaturalLanguage_v1 asciiLowerCase (js ''contains the letter z'') = Inr fs \<and>
         f_contains_character fs = Some (JStr (js ''z''))"
    by (simp add: js_def)
  from h1 n a h2 b show ?thesis by blast
qed

text \<open>
  C6 as stated fails in the second variant on "strings containing the letter z and the
  first vowel": the phrase has X = z, and \<open>contains_character\<close> is "a".
\<close>

theorem first_vowel_overrides_the_letter:
  "firstContainsPhrase (js ''strings containing the letter z and the first vowel'') = Some 0x7A \<and>
   parseNaturalLanguage asciiLowerCase (js ''strings containing the letter z and the first vowel'')
     = Inr (emptyFilters\<lparr>f_contains_character := Some (JStr (js ''a''))\<rparr>)"
proof -
  let ?q = "js ''strings containing the letter z and the first vowel''"
  have q: "trim (asciiLowerCase ?q) = ?q"
    by (simp add: trim_def asciiLowerCase_def js_def asciiLower_def isUpperAscii_def isSpace_def)
  have h: "firstContainsPhrase ?q = Some 0x7A"
    by (simp add: containsPhraseAt_def afterVerb_def nounThenX_def skipThe_def skipSpaces1_def
        alnumHere_def js_def charClasses)
  have r1: "\<not> regexTest rePalindrome ?q"
    by (simp add: rePalindrome_def matcherEval)
  have r2: "\<not> regexTest reSingleWord ?q"
    by (simp add: reSingleWord_def matcherEval)
  have r4: "regexTest reFirstVowel ?q"
    by (simp add: reFirstVowel_def matcherEval)
  have r5: "regexExec reLonger ?q = None"
    by (simp add: reLonger_def matcherEval)
  have r6: "regexExec reShorter ?q = None"
    by (simp add: reShorter_def matcherEval)
  have r7: "regexExec reExactly ?q = None"
    by (simp add: reExactly_def matcherEval)
  have e: "extractFilters ?q = emptyFilters\<lparr>f_contains_character := Some (JStr (js ''a''))\<rparr>"
    unfolding extractFilters_def Let_def
    by (simp add: r1 r2 r4 r5 r6 r7 reContains_exec h)
  have "?q \<noteq> []" by (simp add: js_def)
  with h show ?thesis
    by (simp add: parseNaturalLanguage_def Let_def q e conflicting_def emptyFilters_def)
qed

section \<open>Numbers from \<open>10 ^ 21\<close> in a filter object\<close>

lemma bitLength_eq: "2 ^ k \<le> n \<Longrightarrow> n < 2 ^ Suc k \<Longrightarrow> bitLength n = Suc k"
  using bitLength_le [of n k] bitLength_le [of n "Suc k"] by linarith

lemma below_doubleLimit: "n < 2 ^ 80 \<Longrightarrow> \<not> doubleLimit \<le> n"
proof -
  assume "n < 2 ^ 80"
  also have "(2::nat) ^ 80 \<le> 2 ^ 1024"
    by (rule power_increasing) simp_all
  finally show ?thesis by (simp add: doubleLimit_def)
qed

lemma bitLength_sextillion:
  "bitLength 1000000000000000000000 = 70"
  "bitLength 1000000000000000000001 = 70"
  "bitLength 2000000000000000000000 = 71"
  using bitLength_eq [of 69 1000000000000000000000]
    bitLength_eq [of 69 1000000000000000000001]
    bitLength_eq [of 70 2000000000000000000000]
  by simp_all

lemma roundToDouble_sextillion:
  "roundToDouble 1000000000000000000000 = Some 1000000000000000000000"
  "roundToDouble 1000000000000000000001 = Some 1000000000000000000000"
  "roundToDouble 2000000000000000000000 = Some 2000000000000000000000"
  by (simp_all add: roundToDouble_def bitLength_sextillion Let_def below_doubleLimit)

lemma decimal_sextillion:
  "decimal 1000000000000000000000 = js ''1000000000000000000000''"
  by (simp add: decimal.simps js_def)

lemma toString_sextillion: "toString (JNum 1000000000000000000000) = js ''1e+21''"
proof -
  have "length (decimal 1000000000000000000000) - 1 = Suc 20"
    by (simp add: decimal_sextillion js_def)
  then have "shortestDecimal 1000000000000000000000
      = shortestFrom 1000000000000000000000 (Suc 20)"
    by (simp only: shortestDecimal_def)
  also have "\<dots> = 1000000000000000000000"
    by (subst shortestFrom.simps(2)) (simp add: roundToDouble_sextillion Let_def)
  finally show ?thesis
    by (simp add: numberToString_def decimal_sextillion exponentNotation_def Let_def js_def
        decimal.simps)
qed

lemma parseInt_exponent: "parseInt (js ''1e+21'') = Some (Finite 1)"
  by (simp add: parseInt_def digitsValue_def js_def isSpace_def isDigit_def toDouble_safe)

lemma parseInt_sextillion:
  "parseInt (js ''1000000000000000000000'') = Some (Finite 1000000000000000000000)"
proof -
  have "parseInt (decimal 1000000000000000000000) = Some (toDouble (int 1000000000000000000000))"
    by (rule parseInt_decimal)
  then show ?thesis
    by (simp add: decimal_sextillion toDouble_def roundToDouble_sextillion)
qed

text \<open>
  C8. The query "strings longer than 1000000000000000000000" is read as the filter set
  with the minimal length \<open>10 ^ 21\<close> and nothing else; the record of "hello", of length
  5, does not satisfy it. \<open>applyFilters\<close> returns the record all the same: it passes the
  number to \<open>parseInt\<close>, which reads the text "1e+21" of the number as 1. Given the same
  filter set as a query string, \<open>applyFilters\<close> returns no record.
\<close>

theorem large_number_is_read_as_its_first_digit:
  "parseNaturalLanguage asciiLowerCase (js ''strings longer than 1000000000000000000000'')
     = Inr (asValues \<lparr> is_palindrome_is = None, min_length = Some 1000000000000000000000,
                       max_length = None, word_count_is = None, contains_character = None \<rparr>) \<and>
   \<not> satisfies asciiLowerCase
       \<lparr> is_palindrome_is = None, min_length = Some 1000000000000000000000,
         max_length = None, word_count_is = None, contains_character = None \<rparr>
       (analyzeString asciiLowerCase (js ''2025-10-20T10:00:00.000Z'') (js ''hello'')) \<and>
   applyFilters asciiLowerCase
       [analyzeString asciiLowerCase (js ''2025-10-20T10:00:00.000Z'') (js ''hello'')]
       (asValues \<lparr> is_palindrome_is = None, min_length = Some 1000000000000000000000,
                    max_length = None, word_count_is = None, contains_character = None \<rparr>)
     = [analyzeString asciiLowerCase (js ''2025-10-20T10:00:00.000Z'') (js ''hello'')] \<and>
   applyFilters asciiLowerCase
       [analyzeString asciiLowerCase (js ''2025-10-20T10:00:00.000Z'') (js ''hello'')]
       (asQueryStrings \<lparr> is_palindrome_is = None, min_length = Some 1000000000000000000000,
                          max_length = None, word_count_is = None, contains_character = None \<rparr>)
     = []"
proof -
  let ?q = "js ''strings longer than 1000000000000000000000''"
  let ?F = "\<lparr> is_palindrome_is = None, min_length = Some 1000000000000000000000,
              max_length = None, word_count_is = None, contains_character = None \<rparr>"
  let ?r = "analyzeString asciiLowerCase (js ''2025-10-20T10:00:00.000Z'') (js ''hello'')"
  have q: "trim (asciiLowerCase ?q) = ?q"
    by (simp add: trim_def asciiLowerCase_def js_def asciiLower_def isUpperAscii_def isSpace_def)
  have r1: "\<not> regexTest rePalindrome ?q"
    by (simp add: rePalindrome_def matcherEval)
  have r2: "\<not> regexTest reSingleWord ?q"
    by (simp add: reSingleWord_def matcherEval)
  have r3: "firstContainsPhrase ?q = None"
    by (simp add: containsPhraseAt_def afterVerb_def nounThenX_def skipThe_def skipSpaces1_def
        alnumHere_def js_def charClasses)
  have r4: "\<not> regexTest reFirstVowel ?q"
    by (simp add: reFirstVowel_def matcherEval)
  have r5: "regexExec reLonger ?q
      = Some [(1, js ''longer''), (2, js ''1000000000000000000000'')]"
    by (simp add: reLonger_def matcherEval)
  have r6: "regexExec reShorter ?q = None"
    by (simp add: reShorter_def matcherEval)
  have r7: "regexExec reExactly ?q = None"
    by (simp add: reExactly_def matcherEval)
  have plus: "plus_js (JNum 1000000000000000000000) 1 = JNum 1000000000000000000000"
    by (simp add: number_def toDouble_def roundToDouble_sextillion)
  have e: "extractFilters ?q = asValues ?F"
    unfolding extractFilters_def Let_def
    by (simp add: r1 r2 r4 r5 r6 r7 reContains_exec r3 group_def parseIntGroup_def
        parseInt_sextillion number_def plus asValues_def emptyFilters_def
        del: plus_js.simps)
  have ne: "?q \<noteq> []" by (simp add: js_def)
  have parse: "parseNaturalLanguage asciiLowerCase ?q = Inr (asValues ?F)"
    using ne by (simp add: parseNaturalLanguage_def Let_def q e conflicting_def asValues_def)
  have p: "length_p (properties ?r) = 5"
    by (simp add: analyzeString_def Let_def js_def)
  have unsat: "\<not> satisfies asciiLowerCase ?F ?r"
    by (simp add: satisfies_def p)
  have kept: "applyFilters asciiLowerCase [?r] (asValues ?F) = [?r]"
    by (simp add: applyFilters_def asValues_def toString_sextillion parseInt_exponent p
        del: toString.simps)
  have dropped: "applyFilters asciiLowerCase [?r] (asQueryStrings ?F) = []"
    by (simp add: applyFilters_def asQueryStrings_def numeral_js_def decimal_sextillion
        parseInt_sextillion p)
  from parse unsat kept dropped show ?thesis by simp
qed
end
